theory Spec2Isabelle
  imports Complex_Main
begin

section \<open>Python values and dictionaries\<close>

text \<open>
  The program passes materials, supplier rows and match results around as Python
  dictionaries whose values come from decoded JSON or from the database driver.
  A value is modelled by \<open>pyval\<close>: \<open>PyNum\<close> is an \<open>int\<close> or a \<open>float\<close>, kept by its
  exact value; \<open>PyDict\<close> is a mapping from strings to strings, kept as its item list.
  A dictionary of the program is a map from keys to values.
\<close>

datatype pyval =
    PyNone
  | PyBool bool
  | PyNum rat
  | PyStr string
  | PyDict "(string \<times> string) list"

type_synonym pydict = "string \<rightharpoonup> pyval"

text \<open>\<open>d.get(key, default)\<close>; \<open>d.get(key)\<close> is \<open>dict_get d key PyNone\<close>.\<close>

definition dict_get :: "pydict \<Rightarrow> string \<Rightarrow> pyval \<Rightarrow> pyval" where
  "dict_get d key dflt = (case d key of None \<Rightarrow> dflt | Some v \<Rightarrow> v)"

text \<open>Truth value testing, as \<open>bool(v)\<close> and \<open>if v\<close> do it.\<close>

fun truthy :: "pyval \<Rightarrow> bool" where
  "truthy PyNone = False"
| "truthy (PyBool b) = b"
| "truthy (PyNum r) = (r \<noteq> 0)"
| "truthy (PyStr s) = (s \<noteq> [])"
| "truthy (PyDict kvs) = (kvs \<noteq> [])"

section \<open>Extracted materials\<close>

text \<open>
  The enumerations live in the schema module; the members listed here are the ones the
  classifier refers to.
\<close>

datatype QAClassificationLabel =
    CONSUMABLE_WITH_PN_SPEC_QTY
  | CONSUMABLE_WITH_PN_QTY
  | CONSUMABLE_NO_QTY
  | CONSUMABLE_NO_PN
  | CONSUMABLE_OBSOLETE_PN
  | CONSUMABLE_PN_MISMATCH
  | VENDOR_KIT_NO_PN
  | VENDOR_NAME_ONLY
  | PRE_ASSEMBLED_KIT
  | NO_CONSUMABLE_MENTIONED

datatype ConfidenceLevel = HIGH | MEDIUM | LOW

datatype ActionPathRAG = GREEN | AMBER | RED

text \<open>
  An \<open>ExtractedMaterial\<close> as \<open>_create_enhanced_material\<close> builds it: the fields of its
  constructor call, the name a string, the classification already filled in from
  \<open>_classify_material\<close>, the other attributes as the values decoded from the extraction
  output.
\<close>

record ExtractedMaterial =
  name :: string
  category :: pyval
  specifications :: pyval
  context' :: pyval
  confidence_score :: pyval
  source_section :: string
  qc_process_step :: pyval
  consumable_jigs_tools :: pyval
  name_mismatch :: pyval
  part_number :: pyval
  pn_mismatch :: pyval
  quantity :: pyval
  unit_of_measure :: pyval
  obsolete_pn :: pyval
  vendor_name :: pyval
  kit_available :: pyval
  ai_engine_processing :: pyval
  confidence_level :: ConfidenceLevel
  action_path_rag :: ActionPathRAG
  classification_label :: QAClassificationLabel
  classification_reasoning :: string

section \<open>The classifier\<close>

record classification =
  label :: QAClassificationLabel
  confidence_level :: ConfidenceLevel
  action_path :: ActionPathRAG
  reasoning :: string

text \<open>\<open>ExtractionAgent._classify_material\<close>, branch for branch.\<close>

definition classify_material :: "pydict \<Rightarrow> classification" where
  "classify_material material_data =
    (let has_consumable = truthy (dict_get material_data ''consumable_jigs_tools'' (PyBool False));
         has_pn = truthy (dict_get material_data ''part_number'' PyNone);
         has_qty = truthy (dict_get material_data ''quantity'' PyNone);
         has_specs = truthy (dict_get material_data ''specifications'' PyNone);
         has_vendor = truthy (dict_get material_data ''vendor_name'' PyNone);
         has_kit = truthy (dict_get material_data ''kit_available'' (PyBool False));
         pn_mismatch = truthy (dict_get material_data ''pn_mismatch'' (PyBool False));
         obsolete_pn = truthy (dict_get material_data ''obsolete_pn'' (PyBool False))
     in
       if has_consumable \<and> has_pn \<and> has_qty \<and> has_specs then
         \<lparr>label = CONSUMABLE_WITH_PN_SPEC_QTY, confidence_level = HIGH, action_path = GREEN,
          reasoning = ''Consumable with PN, specifications, and quantity - Auto-Register''\<rparr>
       else if has_consumable \<and> has_pn \<and> has_qty then
         \<lparr>label = CONSUMABLE_WITH_PN_QTY, confidence_level = HIGH, action_path = GREEN,
          reasoning = ''Consumable with PN and quantity - Auto-Register''\<rparr>
       else if has_consumable \<and> has_pn \<and> \<not> has_qty then
         \<lparr>label = CONSUMABLE_NO_QTY, confidence_level = MEDIUM, action_path = AMBER,
          reasoning = ''Consumable with PN but no quantity - Auto with Flag''\<rparr>
       else if has_consumable \<and> \<not> has_pn then
         \<lparr>label = CONSUMABLE_NO_PN, confidence_level = LOW, action_path = RED,
          reasoning = ''Consumable mentioned but no part number - Human Intervention Required''\<rparr>
       else if obsolete_pn then
         \<lparr>label = CONSUMABLE_OBSOLETE_PN, confidence_level = LOW, action_path = RED,
          reasoning = ''Obsolete part number detected - Human Intervention Required''\<rparr>
       else if pn_mismatch then
         \<lparr>label = CONSUMABLE_PN_MISMATCH, confidence_level = LOW, action_path = RED,
          reasoning = ''Part number mismatch detected - Human Intervention Required''\<rparr>
       else if has_vendor \<and> has_kit \<and> \<not> has_pn then
         \<lparr>label = VENDOR_KIT_NO_PN, confidence_level = LOW, action_path = RED,
          reasoning = ''Vendor and kit mentioned but no PN - Human Intervention Required''\<rparr>
       else if has_vendor \<and> \<not> has_consumable then
         \<lparr>label = VENDOR_NAME_ONLY, confidence_level = MEDIUM, action_path = AMBER,
          reasoning = ''Only vendor name mentioned - Auto with Flag''\<rparr>
       else if has_kit then
         \<lparr>label = PRE_ASSEMBLED_KIT, confidence_level = MEDIUM, action_path = AMBER,
          reasoning = ''Pre-assembled kit mentioned - Auto with Flag''\<rparr>
       else
         \<lparr>label = NO_CONSUMABLE_MENTIONED, confidence_level = LOW, action_path = RED,
          reasoning = ''No clear consumable/jigs/tools mentioned - Human Intervention Required''\<rparr>)"

subsection \<open>The decision table of the specification\<close>

text \<open>
  The eight flags the table reads, and the table itself as the specification lists it:
  ten rules, each a condition on the flags with its label, confidence level and action
  path, tried from the first to the last.
\<close>

record flags =
  flag_consumable_jigs_tools :: bool
  has_part_number :: bool
  has_quantity :: bool
  has_specifications :: bool
  has_vendor :: bool
  flag_kit_available :: bool
  flag_pn_mismatch :: bool
  flag_obsolete_pn :: bool

definition flags_of :: "pydict \<Rightarrow> flags" where
  "flags_of material_data =
    \<lparr>flag_consumable_jigs_tools = truthy (dict_get material_data ''consumable_jigs_tools'' (PyBool False)),
     has_part_number = truthy (dict_get material_data ''part_number'' PyNone),
     has_quantity = truthy (dict_get material_data ''quantity'' PyNone),
     has_specifications = truthy (dict_get material_data ''specifications'' PyNone),
     has_vendor = truthy (dict_get material_data ''vendor_name'' PyNone),
     flag_kit_available = truthy (dict_get material_data ''kit_available'' (PyBool False)),
     flag_pn_mismatch = truthy (dict_get material_data ''pn_mismatch'' (PyBool False)),
     flag_obsolete_pn = truthy (dict_get material_data ''obsolete_pn'' (PyBool False))\<rparr>"

type_synonym outcome = "QAClassificationLabel \<times> ConfidenceLevel \<times> ActionPathRAG"

type_synonym rule = "(flags \<Rightarrow> bool) \<times> outcome"

definition decision_table :: "rule list" where
  "decision_table =
    [(\<lambda>f. flag_consumable_jigs_tools f \<and> has_part_number f \<and> has_quantity f \<and> has_specifications f,
        (CONSUMABLE_WITH_PN_SPEC_QTY, HIGH, GREEN)),
     (\<lambda>f. flag_consumable_jigs_tools f \<and> has_part_number f \<and> has_quantity f,
        (CONSUMABLE_WITH_PN_QTY, HIGH, GREEN)),
     (\<lambda>f. flag_consumable_jigs_tools f \<and> has_part_number f \<and> \<not> has_quantity f,
        (CONSUMABLE_NO_QTY, MEDIUM, AMBER)),
     (\<lambda>f. flag_consumable_jigs_tools f \<and> \<not> has_part_number f,
        (CONSUMABLE_NO_PN, LOW, RED)),
     (\<lambda>f. flag_obsolete_pn f,
        (CONSUMABLE_OBSOLETE_PN, LOW, RED)),
     (\<lambda>f. flag_pn_mismatch f,
        (CONSUMABLE_PN_MISMATCH, LOW, RED)),
     (\<lambda>f. has_vendor f \<and> flag_kit_available f \<and> \<not> has_part_number f,
        (VENDOR_KIT_NO_PN, LOW, RED)),
     (\<lambda>f. has_vendor f \<and> \<not> flag_consumable_jigs_tools f,
        (VENDOR_NAME_ONLY, MEDIUM, AMBER)),
     (\<lambda>f. flag_kit_available f,
        (PRE_ASSEMBLED_KIT, MEDIUM, AMBER)),
     (\<lambda>f. True,
        (NO_CONSUMABLE_MENTIONED, LOW, RED))]"

text \<open>First matching rule wins; no rule matching gives no outcome.\<close>

fun first_match :: "rule list \<Rightarrow> flags \<Rightarrow> outcome option" where
  "first_match [] f = None"
| "first_match ((cond, out) # rules) f = (if cond f then Some out else first_match rules f)"

definition outcome_of :: "classification \<Rightarrow> outcome" where
  "outcome_of c = (label c, confidence_level c, action_path c)"

text \<open>A material as decoded from the extraction output, used in the examples below.\<close>

definition hex_bolt_obsolete :: pydict where
  "hex_bolt_obsolete =
    [''name'' \<mapsto> PyStr ''M6x20mm Hex Bolt'',
     ''consumable_jigs_tools'' \<mapsto> PyBool True,
     ''part_number'' \<mapsto> PyStr ''BOLT-M6-20-SS'',
     ''quantity'' \<mapsto> PyNum 4,
     ''specifications'' \<mapsto> PyDict [(''size'', ''M6x20mm'')],
     ''obsolete_pn'' \<mapsto> PyBool True]"


section \<open>Strings\<close>

text \<open>
  A \<open>str\<close> is modelled as a list of characters, a character standing for the code point
  of its number (U+0000 to U+00FF). The character classes and the lower-case mapping are
  the ones Python's \<open>str.isspace\<close>, \<open>str.isalnum\<close> and \<open>str.lower\<close> have on these code
  points.
\<close>

definition ord :: "char \<Rightarrow> nat" where
  "ord c = of_char c"

definition isspace :: "char \<Rightarrow> bool" where
  "isspace c = (let n = ord c in (9 \<le> n \<and> n \<le> 13) \<or> (28 \<le> n \<and> n \<le> 32) \<or> n = 133 \<or> n = 160)"

definition isalnum :: "char \<Rightarrow> bool" where
  "isalnum c =
    (let n = ord c in
       (48 \<le> n \<and> n \<le> 57) \<or> (65 \<le> n \<and> n \<le> 90) \<or> (97 \<le> n \<and> n \<le> 122)
       \<or> n = 170 \<or> n = 178 \<or> n = 179 \<or> n = 181 \<or> n = 185 \<or> n = 186
       \<or> n = 188 \<or> n = 189 \<or> n = 190
       \<or> (192 \<le> n \<and> n \<le> 214) \<or> (216 \<le> n \<and> n \<le> 246) \<or> (248 \<le> n \<and> n \<le> 255))"

definition lower_char :: "char \<Rightarrow> char" where
  "lower_char c =
    (let n = ord c in
       if (65 \<le> n \<and> n \<le> 90) \<or> (192 \<le> n \<and> n \<le> 214) \<or> (216 \<le> n \<and> n \<le> 222)
       then char_of (n + 32) else c)"

text \<open>\<open>s.lower()\<close>\<close>

definition str_lower :: "string \<Rightarrow> string" where
  "str_lower s = map lower_char s"

text \<open>\<open>s.strip()\<close>: leading and trailing whitespace removed.\<close>

definition str_strip :: "string \<Rightarrow> string" where
  "str_strip s = rev (dropWhile isspace (rev (dropWhile isspace s)))"

text \<open>
  \<open>s.split()\<close>: the maximal runs of characters that are not whitespace, in order. The
  first argument is the word read so far.
\<close>

fun split_from :: "string \<Rightarrow> string \<Rightarrow> string list" where
  "split_from w [] = (if w = [] then [] else [w])"
| "split_from w (c # cs) =
    (if isspace c then (if w = [] then split_from [] cs else w # split_from [] cs)
     else split_from (w @ [c]) cs)"

definition str_split :: "string \<Rightarrow> string list" where
  "str_split s = split_from [] s"

text \<open>\<open>' '.join(words)\<close>\<close>

fun str_join :: "string list \<Rightarrow> string" where
  "str_join [] = []"
| "str_join [w] = w"
| "str_join (w # v # ws) = w @ CHR '' '' # str_join (v # ws)"

text \<open>A word, as \<open>split\<close> returns it: not empty, no whitespace in it.\<close>

definition is_word :: "string \<Rightarrow> bool" where
  "is_word w = (w \<noteq> [] \<and> list_all (\<lambda>c. \<not> isspace c) w)"

section \<open>The normalizer\<close>

text \<open>
  What a call can raise: \<open>AttributeError\<close> when a string method is called on a value that
  is not a string, and the errors of the database driver.
\<close>

datatype error = AttributeError | OperationalError | ProgrammingError | IntegrityError

text \<open>
  \<open>KnowledgeBase.normalize_material_name\<close>. A falsy argument (\<open>None\<close>, the empty string)
  gives the empty string; a truthy argument that is not a string has no \<open>lower\<close> method.
\<close>

definition normalize_material_name :: "pyval \<Rightarrow> error + string" where
  "normalize_material_name material_name =
    (if \<not> truthy material_name then Inr []
     else case material_name of
       PyStr s \<Rightarrow>
         (let normalized = str_strip (str_lower s);
              normalized = filter (\<lambda>char. isalnum char \<or> isspace char) normalized;
              normalized = str_join (str_split normalized)
          in Inr normalized)
     | _ \<Rightarrow> Inl AttributeError)"

section \<open>Deduplication of the extracted materials\<close>






section \<open>Floating-point numbers\<close>

text \<open>
  A Python \<open>float\<close> is an IEEE 754 binary64 number, modelled by its exact rational value.
  A literal, a division of two integers and a product of two floats each give the exact
  result rounded to the nearest binary64 number, ties to the even significand; \<open>fl\<close> is
  that rounding. The numbers of this program lie between 0 and 100, so overflow,
  infinities and NaN do not occur and are not modelled.
\<close>

definition pow2 :: "int \<Rightarrow> rat" where
  "pow2 e = (if 0 \<le> e then 2 ^ nat e else 1 / 2 ^ nat (- e))"

text \<open>
  The binary exponent of a positive number, \<open>\<lfloor>log\<^sub>2 x\<rfloor>\<close>, kept within the exponent range of
  binary64 by the number of steps allowed.
\<close>

fun exponent_down :: "nat \<Rightarrow> rat \<Rightarrow> int" where
  "exponent_down 0 x = 0"
| "exponent_down (Suc n) x = (if 1 \<le> x then 0 else exponent_down n (2 * x) - 1)"

fun exponent_up :: "nat \<Rightarrow> rat \<Rightarrow> int" where
  "exponent_up 0 x = 0"
| "exponent_up (Suc n) x = (if x < 2 then 0 else exponent_up n (x / 2) + 1)"

definition exponent :: "rat \<Rightarrow> int" where
  "exponent x = (if 1 \<le> x then exponent_up 1023 x else exponent_down 1022 x)"

definition round_half_even :: "rat \<Rightarrow> int" where
  "round_half_even x =
    (let f = \<lfloor>x\<rfloor>; d = x - of_int f
     in if d < 1 / 2 then f else if 1 / 2 < d then f + 1 else if even f then f else f + 1)"

definition fl :: "rat \<Rightarrow> rat" where
  "fl x =
    (if x = 0 then 0
     else let q = pow2 (exponent \<bar>x\<bar> - 52)
          in sgn x * of_int (round_half_even (\<bar>x\<bar> / q)) * q)"

text \<open>\<open>a / b\<close> on integers (true division) and \<open>x * y\<close> on floats.\<close>

definition py_truediv :: "nat \<Rightarrow> nat \<Rightarrow> rat" where
  "py_truediv a b = fl (of_nat a / of_nat b)"

definition py_mul :: "rat \<Rightarrow> rat \<Rightarrow> rat" where
  "py_mul x y = fl (x * y)"

section \<open>The knowledge base\<close>

text \<open>
  The SQLite database behind \<open>KnowledgeBase\<close>. A row of the table \<open>items\<close> has the columns of
  its \<open>CREATE TABLE\<close> statement; the timestamps are seconds of the database clock. A row of
  \<open>item_matches\<close> keeps the two item references that the statistics read, and its other
  columns as a list.
\<close>

record item_row =
  row_id :: nat
  material_name :: pyval
  normalized_name :: string
  part_number :: pyval
  vendor_name :: pyval
  classification_label :: pyval
  classification_confidence :: pyval
  qc_process_step :: pyval
  unit_of_measure :: pyval
  quantity :: pyval
  consumable_jigs_tools :: pyval
  created_at :: nat
  updated_at :: nat
  workflow_id :: pyval
  source_document :: pyval
  qa_excerpt :: pyval
  category :: pyval

record match_row =
  match_id :: nat
  original_item_id :: "nat option"
  matched_item_id :: "nat option"
  other_columns :: "pyval list"

text \<open>
  The state of the database file: whether it can be opened and written at all, the two
  tables in rowid order, and the last id that \<open>AUTOINCREMENT\<close> gave out for \<open>items\<close>
  (deleting rows does not reset it).
\<close>

record db =
  reachable :: bool
  items_table :: "item_row list"
  item_matches_table :: "match_row list"
  sqlite_sequence :: nat

text \<open>
  Binding a statement parameter: \<open>None\<close>, numbers and strings are stored as they are, a
  \<open>bool\<close> as the integer 0 or 1, and a dictionary is refused. (The conversion of a number
  to text by the affinity of a \<open>TEXT\<close> column is left out.)
\<close>

fun supported :: "pyval \<Rightarrow> bool" where
  "supported (PyDict kvs) = False"
| "supported v = True"

fun stored :: "pyval \<Rightarrow> pyval" where
  "stored (PyBool b) = PyNum (of_bool b)"
| "stored v = v"

text \<open>
  One \<open>INSERT INTO items\<close> of \<open>add_items\<close>, with the new rowid and the reading of
  \<open>CURRENT_TIMESTAMP\<close>: the parameters are bound, then the \<open>NOT NULL\<close> constraint of
  \<open>material_name\<close> is checked.
\<close>

definition execute_insert ::
  "nat \<Rightarrow> nat \<Rightarrow> string \<Rightarrow> pydict \<Rightarrow> pyval \<Rightarrow> pyval \<Rightarrow> error + item_row" where
  "execute_insert new_id timestamp normalized item workflow source =
    (let parameters =
       [dict_get item ''qa_material_name'' (PyStr []),
        PyStr normalized,
        dict_get item ''part_number'' PyNone,
        dict_get item ''vendor_name'' PyNone,
        dict_get item ''qa_classification_label'' PyNone,
        dict_get item ''qa_confidence_level'' PyNone,
        dict_get item ''qc_process_step'' PyNone,
        dict_get item ''unit_of_measure'' PyNone,
        dict_get item ''quantity'' PyNone,
        dict_get item ''consumable_jigs_tools'' (PyBool False),
        workflow,
        source,
        dict_get item ''qa_excerpt'' (PyStr []),
        dict_get item ''category'' (PyStr [])]
     in if \<not> list_all supported parameters then Inl ProgrammingError
        else if dict_get item ''qa_material_name'' (PyStr []) = PyNone then Inl IntegrityError
        else Inr
          \<lparr>row_id = new_id,
           material_name = stored (dict_get item ''qa_material_name'' (PyStr [])),
           normalized_name = normalized,
           part_number = stored (dict_get item ''part_number'' PyNone),
           vendor_name = stored (dict_get item ''vendor_name'' PyNone),
           classification_label = stored (dict_get item ''qa_classification_label'' PyNone),
           classification_confidence = stored (dict_get item ''qa_confidence_level'' PyNone),
           qc_process_step = stored (dict_get item ''qc_process_step'' PyNone),
           unit_of_measure = stored (dict_get item ''unit_of_measure'' PyNone),
           quantity = stored (dict_get item ''quantity'' PyNone),
           consumable_jigs_tools = stored (dict_get item ''consumable_jigs_tools'' (PyBool False)),
           created_at = timestamp,
           updated_at = timestamp,
           workflow_id = stored workflow,
           source_document = stored source,
           qa_excerpt = stored (dict_get item ''qa_excerpt'' (PyStr [])),
           category = stored (dict_get item ''category'' (PyStr []))\<rparr>)"

text \<open>
  The loop of \<open>add_items\<close> inside its transaction: the rows of the table so far, the last
  id given out, and \<open>added_ids\<close>. \<open>now i\<close> is the clock at the \<open>i\<close>-th statement of the call.
  The first statement that raises ends the loop with its error.
\<close>

fun add_items_loop ::
  "(nat \<Rightarrow> nat) \<Rightarrow> nat \<Rightarrow> pyval \<Rightarrow> pyval \<Rightarrow> pydict list
    \<Rightarrow> item_row list \<Rightarrow> nat \<Rightarrow> nat list \<Rightarrow> error + (item_row list \<times> nat \<times> nat list)" where
  "add_items_loop now i workflow source [] rows last_id added_ids = Inr (rows, last_id, added_ids)"
| "add_items_loop now i workflow source (item # items) rows last_id added_ids =
    (case normalize_material_name (dict_get item ''qa_material_name'' (PyStr [])) of
       Inl e \<Rightarrow> Inl e
     | Inr normalized \<Rightarrow>
        (case execute_insert (Suc last_id) (now i) normalized item workflow source of
           Inl e \<Rightarrow> Inl e
         | Inr new_row \<Rightarrow>
             add_items_loop now (Suc i) workflow source items
               (rows @ [new_row]) (Suc last_id) (added_ids @ [Suc last_id])))"

text \<open>
  \<open>KnowledgeBase.add_items\<close>. An empty batch returns before the database is opened. Any
  exception inside the \<open>try\<close> is logged and answered by the empty list; the transaction
  was not committed, so the database is as it was.
\<close>

definition add_items ::
  "db \<Rightarrow> (nat \<Rightarrow> nat) \<Rightarrow> pydict list \<Rightarrow> pyval \<Rightarrow> pyval \<Rightarrow> db \<times> nat list" where
  "add_items kb now items workflow source =
    (if items = [] then (kb, [])
     else
       case (if reachable kb
             then add_items_loop now 0 workflow source items (items_table kb) (sqlite_sequence kb) []
             else Inl OperationalError) of
         Inl e \<Rightarrow> (kb, [])
       | Inr (rows, last_id, added_ids) \<Rightarrow>
           (kb\<lparr>items_table := rows, sqlite_sequence := last_id\<rparr>, added_ids))"

text \<open>
  A dictionary with a score: the two keys that knowledge-base matches and supplier
  matches share.
\<close>

record scored =
  confidence_score :: rat
  match_type :: string

text \<open>
  A match returned by \<open>find_similar_items\<close>: the columns of the row, \<open>match_type\<close> and
  \<open>confidence_score\<close>.
\<close>

record kb_match = scored +
  row :: item_row

text \<open>
  \<open>SELECT * FROM items WHERE normalized_name = ? ORDER BY created_at DESC LIMIT 5\<close>. Rows
  with equal timestamps come out in rowid order, as SQLite's sorter leaves them.
\<close>

definition select_exact :: "item_row list \<Rightarrow> string \<Rightarrow> item_row list" where
  "select_exact rows normalized_query =
    take 5 (sort_key (\<lambda>r. - int (created_at r)) (filter (\<lambda>r. normalized_name r = normalized_query) rows))"

text \<open>
  \<open>KnowledgeBase.find_similar_items\<close>; its \<open>threshold\<close> parameter is never read, and neither
  is \<open>part_number\<close>. Any exception inside the \<open>try\<close> is logged and answered by the empty
  list.
\<close>

definition find_similar_items :: "db \<Rightarrow> pyval \<Rightarrow> pyval \<Rightarrow> kb_match list" where
  "find_similar_items kb material_name' part_number' =
    (case (if reachable kb then normalize_material_name material_name' else Inl OperationalError) of
       Inl e \<Rightarrow> []
     | Inr normalized_query \<Rightarrow>
         (if normalized_query \<noteq> []
          then map (\<lambda>r. \<lparr>confidence_score = 1, match_type = ''exact'', row = r\<rparr>)
                 (select_exact (items_table kb) normalized_query)
          else []))"

text \<open>\<open>KnowledgeBase.get_processing_stats\<close>; on an exception every number is 0.\<close>

record stats =
  total_items :: nat
  total_workflows :: nat
  total_matches :: nat
  unique_matched_items :: nat
  match_rate :: rat

definition get_processing_stats :: "db \<Rightarrow> stats" where
  "get_processing_stats kb =
    (if reachable kb then
       (let total_items = length (items_table kb);
            total_workflows =
              card (set (filter (\<lambda>w. w \<noteq> PyNone) (map workflow_id (items_table kb))));
            total_matches = length (item_matches_table kb);
            unique_matched_items =
              card (set (filter (\<lambda>i. i \<noteq> None) (map original_item_id (item_matches_table kb))))
        in \<lparr>total_items = total_items,
            total_workflows = total_workflows,
            total_matches = total_matches,
            unique_matched_items = unique_matched_items,
            match_rate =
              (if 0 < total_items
               then py_mul (py_truediv unique_matched_items total_items) 100 else 0)\<rparr>)
     else
       \<lparr>total_items = 0, total_workflows = 0, total_matches = 0, unique_matched_items = 0,
        match_rate = 0\<rparr>)"

text \<open>\<open>KnowledgeBase.clear_all_data\<close>; on an exception nothing is deleted.\<close>

definition clear_all_data :: "db \<Rightarrow> db" where
  "clear_all_data kb =
    (if reachable kb then kb\<lparr>item_matches_table := [], items_table := []\<rparr> else kb)"



section \<open>The matcher\<close>

text \<open>\<open>a == b\<close> on values: \<open>True\<close> and \<open>False\<close> are the numbers 1 and 0.\<close>

fun py_eq :: "pyval \<Rightarrow> pyval \<Rightarrow> bool" where
  "py_eq (PyBool a) (PyNum r) = (r = of_bool a)"
| "py_eq (PyNum r) (PyBool a) = (r = of_bool a)"
| "py_eq (PyDict a) (PyDict b) = (set a = set b)"
| "py_eq x y = (x = y)"

text \<open>A supplier match, the dictionary \<open>_find_supplier_matches\<close> appends.\<close>

record candidate = scored +
  supplier_description :: pyval
  supplier_part_number :: pyval

text \<open>
  The score of one supplier item, given the lower-cased material name and the part number
  of the material: the body of the loop of \<open>_find_supplier_matches\<close> up to the threshold.
\<close>

definition supplier_confidence :: "string \<Rightarrow> pyval \<Rightarrow> string \<Rightarrow> pyval \<Rightarrow> rat" where
  "supplier_confidence material_name' part_number' supplier_desc supplier_part =
    (if truthy part_number' \<and> truthy supplier_part \<and> py_eq part_number' supplier_part then fl (95 / 100)
     else if material_name' \<noteq> [] \<and> supplier_desc \<noteq> [] then
       (let common_words = set (str_split material_name') \<inter> set (str_split supplier_desc)
        in if common_words \<noteq> {} then
             (let word_match_ratio =
                    py_truediv (card common_words)
                      (max (length (str_split material_name')) (length (str_split supplier_desc)))
              in min (fl (9 / 10)) (py_mul word_match_ratio (fl (8 / 10))))
           else 0)
     else 0)"

text \<open>
  The loop over the supplier BOM. \<open>lower\<close> on a description that is not a string raises
  \<open>AttributeError\<close>.
\<close>

fun supplier_loop ::
  "string \<Rightarrow> pyval \<Rightarrow> pydict list \<Rightarrow> candidate list \<Rightarrow> error + candidate list" where
  "supplier_loop material_name' part_number' [] matches = Inr matches"
| "supplier_loop material_name' part_number' (supplier_item # supplier_bom) matches =
    (case dict_get supplier_item ''description'' (PyStr []) of
       PyStr description \<Rightarrow>
         (let supplier_desc = str_lower description;
              supplier_part = dict_get supplier_item ''part_number'' (PyStr []);
              confidence = supplier_confidence material_name' part_number' supplier_desc supplier_part
          in supplier_loop material_name' part_number' supplier_bom
               (if fl (3 / 10) < confidence
                then matches @
                  [\<lparr>confidence_score = confidence,
                    match_type = (if fl (9 / 10) < confidence then ''part_number'' else ''description''),
                    supplier_description = dict_get supplier_item ''description'' (PyStr []),
                    supplier_part_number = dict_get supplier_item ''part_number'' (PyStr [])\<rparr>]
                else matches))
     | _ \<Rightarrow> Inl AttributeError)"

text \<open>
  \<open>sorted(xs, key=key, reverse=True)\<close>: the list is reversed, sorted by a stable sort in
  ascending order, and reversed again.
\<close>

definition sorted_reverse :: "('a \<Rightarrow> rat) \<Rightarrow> 'a list \<Rightarrow> 'a list" where
  "sorted_reverse key xs = rev (sort_key key (rev xs))"

text \<open>
  \<open>ItemMatcher._find_supplier_matches\<close>. \<open>lower\<close> on a material name that is not a string
  raises \<open>AttributeError\<close>.
\<close>

definition find_supplier_matches :: "pydict \<Rightarrow> pydict list \<Rightarrow> error + candidate list" where
  "find_supplier_matches item supplier_bom =
    (case dict_get item ''qa_material_name'' (PyStr []) of
       PyStr n \<Rightarrow>
         (case supplier_loop (str_lower n) (dict_get item ''part_number'' (PyStr [])) supplier_bom [] of
            Inl e \<Rightarrow> Inl e
          | Inr matches \<Rightarrow> Inr (sorted_reverse confidence_score matches))
     | _ \<Rightarrow> Inl AttributeError)"

text \<open>
  \<open>max(xs, key=key)\<close> on a list that is not empty: the first element whose key no later
  element exceeds.
\<close>

fun max_loop :: "('a \<Rightarrow> rat) \<Rightarrow> 'a \<Rightarrow> 'a list \<Rightarrow> 'a" where
  "max_loop key best [] = best"
| "max_loop key best (x # xs) = max_loop key (if key best < key x then x else best) xs"

text \<open>
  The dictionary \<open>_select_best_match\<close> returns: a supplier match with its \<open>match_source\<close>,
  and the \<open>id\<close> of the row when the match comes from the knowledge base. The empty
  dictionary is \<open>None\<close>.
\<close>

record best_match = candidate +
  match_source :: string
  kb_id :: "nat option"

definition select_best_match ::
  "pydict \<Rightarrow> kb_match list \<Rightarrow> candidate list \<Rightarrow> best_match option" where
  "select_best_match item kb_matches supplier_matches =
    (case find (\<lambda>kb_match. match_type kb_match = ''exact'') kb_matches of
       Some kb_match \<Rightarrow>
         Some \<lparr>confidence_score = fl (9 / 10), match_type = ''exact'',
               supplier_description = material_name (row kb_match),
               supplier_part_number = part_number (row kb_match),
               match_source = ''knowledge_base'', kb_id = Some (row_id (row kb_match))\<rparr>
     | None \<Rightarrow>
         (let fuzzy =
            (case kb_matches of
               [] \<Rightarrow> None
             | k # ks \<Rightarrow>
                 (let best_kb = max_loop confidence_score k ks
                  in Some \<lparr>confidence_score = fl (6 / 10), match_type = ''fuzzy'',
                           supplier_description = material_name (row best_kb),
                           supplier_part_number = part_number (row best_kb),
                           match_source = ''knowledge_base'', kb_id = Some (row_id (row best_kb))\<rparr>))
          in case supplier_matches of
               [] \<Rightarrow> fuzzy
             | s # ss \<Rightarrow>
                 (let best_supplier = max_loop confidence_score s ss
                  in if fl (7 / 10) < confidence_score best_supplier
                     then Some \<lparr>confidence_score = confidence_score best_supplier,
                                match_type = match_type best_supplier,
                                supplier_description = supplier_description best_supplier,
                                supplier_part_number = supplier_part_number best_supplier,
                                match_source = ''supplier_bom'', kb_id = None\<rparr>
                     else fuzzy)))"

text \<open>\<open>ItemMatcher._determine_match_source\<close>\<close>

definition determine_match_source :: "kb_match list \<Rightarrow> candidate list \<Rightarrow> string" where
  "determine_match_source kb_matches supplier_matches =
    (if kb_matches \<noteq> [] \<and> supplier_matches \<noteq> [] then ''hybrid''
     else if kb_matches \<noteq> [] then ''knowledge_base''
     else if supplier_matches \<noteq> [] then ''supplier_bom''
     else ''no_match'')"

subsection \<open>Notions of the specification\<close>

text \<open>A highest-scoring element of a list: one of its elements, and none scores higher.\<close>

definition highest_scoring :: "('a \<Rightarrow> rat) \<Rightarrow> 'a list \<Rightarrow> 'a \<Rightarrow> bool" where
  "highest_scoring key xs x = (x \<in> set xs \<and> list_all (\<lambda>y. key y \<le> key x) xs)"

text \<open>A supplier match as a best match: the same four keys, and its source.\<close>

definition from_supplier :: "candidate \<Rightarrow> best_match" where
  "from_supplier s =
    \<lparr>confidence_score = confidence_score s, match_type = match_type s,
     supplier_description = supplier_description s,
     supplier_part_number = supplier_part_number s,
     match_source = ''supplier_bom'', kb_id = None\<rparr>"

text \<open>A knowledge-base match as a best match, with the confidence that is reported for it.\<close>

definition from_knowledge_base :: "rat \<Rightarrow> string \<Rightarrow> kb_match \<Rightarrow> best_match" where
  "from_knowledge_base reported type k =
    \<lparr>confidence_score = reported, match_type = type,
     supplier_description = material_name (row k),
     supplier_part_number = part_number (row k),
     match_source = ''knowledge_base'', kb_id = Some (row_id (row k))\<rparr>"

text \<open>Matches used in the examples below.\<close>

definition bolt_row :: item_row where
  "bolt_row =
    \<lparr>row_id = 7, material_name = PyStr ''M6x20mm Hex Bolt'', normalized_name = ''m6x20mm hex bolt'',
     part_number = PyStr ''BOLT-M6-20-SS'', vendor_name = PyNone, classification_label = PyNone,
     classification_confidence = PyNone, qc_process_step = PyNone, unit_of_measure = PyNone,
     quantity = PyNum 4, consumable_jigs_tools = PyNum 1, created_at = 100, updated_at = 100,
     workflow_id = PyStr ''wf-0'', source_document = PyNone, qa_excerpt = PyStr [],
     category = PyStr []\<rparr>"

definition kb_exact :: kb_match where
  "kb_exact = \<lparr>confidence_score = 1, match_type = ''exact'', row = bolt_row\<rparr>"

definition kb_fuzzy :: kb_match where
  "kb_fuzzy = \<lparr>confidence_score = 4 / 10, match_type = ''fuzzy'', row = bolt_row\<rparr>"

definition supplier_by_part :: candidate where
  "supplier_by_part =
    \<lparr>confidence_score = fl (95 / 100), match_type = ''part_number'',
     supplier_description = PyStr ''hex bolt stainless'',
     supplier_part_number = PyStr ''BOLT-M6-20-SS''\<rparr>"

definition supplier_by_words :: candidate where
  "supplier_by_words =
    \<lparr>confidence_score = fl (4 / 10), match_type = ''description'',
     supplier_description = PyStr ''hex bolt'',
     supplier_part_number = PyStr []\<rparr>"

text \<open>
  The fallback of \<open>_select_best_match\<close>: the highest-scoring knowledge-base match, reported
  as a fuzzy match with confidence 0.6, when there is a knowledge-base match at all.
\<close>

definition fuzzy_of :: "kb_match list \<Rightarrow> best_match option" where
  "fuzzy_of kb_matches =
    (case kb_matches of
       [] \<Rightarrow> None
     | k # ks \<Rightarrow> Some (from_knowledge_base (fl (6 / 10)) ''fuzzy'' (max_loop confidence_score k ks)))"


subsection \<open>Supplier candidates as the specification describes them\<close>

text \<open>
  A name or description is a string; a part number is an optional string, \<open>None\<close> or a
  missing key standing for the empty text.
\<close>

fun is_str :: "pyval \<Rightarrow> bool" where
  "is_str (PyStr s) = True"
| "is_str v = False"

fun is_text :: "pyval \<Rightarrow> bool" where
  "is_text (PyStr s) = True"
| "is_text PyNone = True"
| "is_text v = False"

fun text_of :: "pyval \<Rightarrow> string" where
  "text_of (PyStr s) = s"
| "text_of v = []"

text \<open>
  The score of a supplier item for a material and the match type that goes with it:
  equal non-empty part numbers score 0.95 as a part-number match; else the names are
  case-folded and cut into tokens at whitespace, and a non-empty intersection of the
  token sets scores its size over the larger token count, times 0.8, at most 0.9, as a
  description match; else the score is 0.
\<close>

definition spec_score :: "string \<Rightarrow> string \<Rightarrow> string \<Rightarrow> string \<Rightarrow> rat \<times> string" where
  "spec_score material_name' material_part supplier_desc supplier_part =
    (if material_part \<noteq> [] \<and> supplier_part \<noteq> [] \<and> material_part = supplier_part
     then (fl (95 / 100), ''part_number'')
     else
       (let material_tokens = str_split (str_lower material_name');
            supplier_tokens = str_split (str_lower supplier_desc);
            common = card (set material_tokens \<inter> set supplier_tokens)
        in if 0 < common
           then (min (fl (9 / 10))
                   (py_mul (py_truediv common (max (length material_tokens) (length supplier_tokens)))
                      (fl (8 / 10))),
                 ''description'')
           else (0, ''description'')))"

definition spec_candidate :: "pydict \<Rightarrow> pydict \<Rightarrow> candidate" where
  "spec_candidate item supplier_item =
    (let scored_as =
       spec_score (text_of (dict_get item ''qa_material_name'' (PyStr [])))
         (text_of (dict_get item ''part_number'' (PyStr [])))
         (text_of (dict_get supplier_item ''description'' (PyStr [])))
         (text_of (dict_get supplier_item ''part_number'' (PyStr [])))
     in \<lparr>confidence_score = fst scored_as, match_type = snd scored_as,
         supplier_description = dict_get supplier_item ''description'' (PyStr []),
         supplier_part_number = dict_get supplier_item ''part_number'' (PyStr [])\<rparr>)"

text \<open>A well-typed material and supplier BOM.\<close>

definition typed_item :: "pydict \<Rightarrow> bool" where
  "typed_item item =
    (is_str (dict_get item ''qa_material_name'' (PyStr []))
     \<and> is_text (dict_get item ''part_number'' (PyStr [])))"

definition typed_supplier_item :: "pydict \<Rightarrow> bool" where
  "typed_supplier_item supplier_item =
    (is_str (dict_get supplier_item ''description'' (PyStr []))
     \<and> is_text (dict_get supplier_item ''part_number'' (PyStr [])))"

text \<open>A material and a supplier BOM, used in the examples below.\<close>

definition bolt_item :: pydict where
  "bolt_item = [''qa_material_name'' \<mapsto> PyStr ''M6 Hex Bolt'', ''part_number'' \<mapsto> PyStr ''BOLT-M6'']"

definition bolt_bom :: "pydict list" where
  "bolt_bom =
    [[''description'' \<mapsto> PyStr ''hex bolt stainless'', ''part_number'' \<mapsto> PyStr ''X1''],
     [''description'' \<mapsto> PyStr ''washer'', ''part_number'' \<mapsto> PyStr ''BOLT-M6''],
     [''description'' \<mapsto> PyStr ''Bolt HEX m6''],
     [''description'' \<mapsto> PyStr ''a b c d e f g hex''],
     [''description'' \<mapsto> PyStr ''m6 hex nut'']]"


section \<open>Matching a batch against the knowledge base\<close>

text \<open>Decimal digits of a natural number.\<close>

function show_nat :: "nat \<Rightarrow> string" where
  "show_nat n =
    (if n < 10 then [char_of (48 + n)] else show_nat (n div 10) @ [char_of (48 + n mod 10)])"
  by pat_completeness auto
termination
  by (relation "measure (\<lambda>n. n)") auto

text \<open>
  \<open>f"{x:.1%}"\<close>: the float is multiplied by 100 and written with one digit after the point,
  rounded to nearest, ties to even.
\<close>

definition format_percent :: "rat \<Rightarrow> string" where
  "format_percent x =
    (let y = py_mul x 100; n = nat (round_half_even (\<bar>y\<bar> * 10))
     in (if y < 0 then ''-'' else []) @ show_nat (n div 10) @ ''.'' @ show_nat (n mod 10) @ ''%'')"

text \<open>\<open>ItemMatcher._generate_match_reasoning\<close>\<close>

definition generate_match_reasoning ::
  "kb_match list \<Rightarrow> candidate list \<Rightarrow> best_match option \<Rightarrow> string" where
  "generate_match_reasoning kb_matches supplier_matches best =
    (case best of
       None \<Rightarrow> ''No suitable match found in knowledge base or supplier BOM''
     | Some b \<Rightarrow>
        (let confidence = format_percent (confidence_score b)
         in if match_source b = ''knowledge_base'' then
              (if match_type b = ''exact''
               then ''Exact match found in knowledge base from previous workflow (confidence: ''
                      @ confidence @ '')''
               else ''Similar item found in knowledge base (confidence: '' @ confidence @ '')'')
            else if match_source b = ''supplier_bom'' then
              ''Match found in current supplier BOM (confidence: '' @ confidence @ '')''
            else if match_source b = ''hybrid'' then
              ''Match verified through both knowledge base and supplier BOM (confidence: ''
                 @ confidence @ '')''
            else ''Match found with '' @ confidence @ '' confidence''))"

text \<open>
  The body of the loop of \<open>match_items_with_knowledge_base\<close> for one item: the match
  result is the item with eight more keys. \<open>find_similar_items\<close> does not raise;
  \<open>_find_supplier_matches\<close> can, and its exception leaves the function.
\<close>

definition match_item :: "db \<Rightarrow> pydict list \<Rightarrow> pydict \<Rightarrow> error + pydict" where
  "match_item kb supplier_bom item =
    (let material_name' = dict_get item ''qa_material_name'' (PyStr []);
         part_number' = dict_get item ''part_number'' (PyStr []);
         kb_matches = find_similar_items kb material_name' part_number'
     in case find_supplier_matches item supplier_bom of
          Inl e \<Rightarrow> Inl e
        | Inr supplier_matches \<Rightarrow>
           (let best = select_best_match item kb_matches supplier_matches;
                reasoning' = generate_match_reasoning kb_matches supplier_matches best
            in Inr (item ++
                 [''knowledge_base_matches'' \<mapsto> PyNum (of_nat (length kb_matches)),
                  ''supplier_matches'' \<mapsto> PyNum (of_nat (length supplier_matches)),
                  ''has_previous_match'' \<mapsto> PyBool (0 < length kb_matches),
                  ''match_source'' \<mapsto> PyStr (determine_match_source kb_matches supplier_matches),
                  ''confidence_score'' \<mapsto>
                     PyNum (case best of Some b \<Rightarrow> confidence_score b | None \<Rightarrow> 0),
                  ''supplier_description'' \<mapsto>
                     (case best of Some b \<Rightarrow> supplier_description b | None \<Rightarrow> PyStr []),
                  ''supplier_part_number'' \<mapsto>
                     (case best of Some b \<Rightarrow> supplier_part_number b | None \<Rightarrow> PyStr []),
                  ''reasoning'' \<mapsto> PyStr reasoning'])))"

fun match_loop :: "db \<Rightarrow> pydict list \<Rightarrow> pydict list \<Rightarrow> pydict list \<Rightarrow> error + pydict list" where
  "match_loop kb supplier_bom [] enhanced_matches = Inr enhanced_matches"
| "match_loop kb supplier_bom (item # extracted_items) enhanced_matches =
    (case match_item kb supplier_bom item of
       Inl e \<Rightarrow> Inl e
     | Inr match_result \<Rightarrow>
         match_loop kb supplier_bom extracted_items (enhanced_matches @ [match_result]))"

text \<open>
  \<open>ItemMatcher.match_items_with_knowledge_base\<close>: the whole batch is added to the knowledge
  base first, then every item is looked up and matched. The result is the database after
  the call and the list of match results, or the exception that left the loop.
\<close>

definition match_items_with_knowledge_base ::
  "db \<Rightarrow> (nat \<Rightarrow> nat) \<Rightarrow> pydict list \<Rightarrow> pydict list \<Rightarrow> pyval \<Rightarrow> db \<times> (error + pydict list)" where
  "match_items_with_knowledge_base kb now extracted_items supplier_bom workflow =
    (let (kb', new_item_ids) = add_items kb now extracted_items workflow PyNone
     in (kb', match_loop kb' supplier_bom extracted_items []))"

text \<open>Databases and a clock, used in the examples below.\<close>

definition empty_kb :: db where
  "empty_kb = \<lparr>reachable = True, items_table = [], item_matches_table = [], sqlite_sequence = 0\<rparr>"


definition noon :: "nat \<Rightarrow> nat" where
  "noon i = 43200"

text \<open>A database with two items of one workflow and a match history, for the statistics.\<close>

definition busy_kb :: db where
  "busy_kb =
    \<lparr>reachable = True,
     items_table = [bolt_row, bolt_row\<lparr>row_id := 8, workflow_id := PyNone\<rparr>],
     item_matches_table =
       [\<lparr>match_id = 1, original_item_id = Some 7, matched_item_id = Some 8, other_columns = []\<rparr>,
        \<lparr>match_id = 2, original_item_id = Some 7, matched_item_id = None, other_columns = []\<rparr>,
        \<lparr>match_id = 3, original_item_id = None, matched_item_id = None, other_columns = []\<rparr>],
     sqlite_sequence = 8\<rparr>"



section \<open>Properties of the classifier\<close>

lemma classify_material_flags:
  "classify_material material_data =
    (let f = flags_of material_data in
       if flag_consumable_jigs_tools f \<and> has_part_number f \<and> has_quantity f \<and> has_specifications f then
         \<lparr>label = CONSUMABLE_WITH_PN_SPEC_QTY, confidence_level = HIGH, action_path = GREEN,
          reasoning = ''Consumable with PN, specifications, and quantity - Auto-Register''\<rparr>
       else if flag_consumable_jigs_tools f \<and> has_part_number f \<and> has_quantity f then
         \<lparr>label = CONSUMABLE_WITH_PN_QTY, confidence_level = HIGH, action_path = GREEN,
          reasoning = ''Consumable with PN and quantity - Auto-Register''\<rparr>
       else if flag_consumable_jigs_tools f \<and> has_part_number f \<and> \<not> has_quantity f then
         \<lparr>label = CONSUMABLE_NO_QTY, confidence_level = MEDIUM, action_path = AMBER,
          reasoning = ''Consumable with PN but no quantity - Auto with Flag''\<rparr>
       else if flag_consumable_jigs_tools f \<and> \<not> has_part_number f then
         \<lparr>label = CONSUMABLE_NO_PN, confidence_level = LOW, action_path = RED,
          reasoning = ''Consumable mentioned but no part number - Human Intervention Required''\<rparr>
       else if flag_obsolete_pn f then
         \<lparr>label = CONSUMABLE_OBSOLETE_PN, confidence_level = LOW, action_path = RED,
          reasoning = ''Obsolete part number detected - Human Intervention Required''\<rparr>
       else if flag_pn_mismatch f then
         \<lparr>label = CONSUMABLE_PN_MISMATCH, confidence_level = LOW, action_path = RED,
          reasoning = ''Part number mismatch detected - Human Intervention Required''\<rparr>
       else if has_vendor f \<and> flag_kit_available f \<and> \<not> has_part_number f then
         \<lparr>label = VENDOR_KIT_NO_PN, confidence_level = LOW, action_path = RED,
          reasoning = ''Vendor and kit mentioned but no PN - Human Intervention Required''\<rparr>
       else if has_vendor f \<and> \<not> flag_consumable_jigs_tools f then
         \<lparr>label = VENDOR_NAME_ONLY, confidence_level = MEDIUM, action_path = AMBER,
          reasoning = ''Only vendor name mentioned - Auto with Flag''\<rparr>
       else if flag_kit_available f then
         \<lparr>label = PRE_ASSEMBLED_KIT, confidence_level = MEDIUM, action_path = AMBER,
          reasoning = ''Pre-assembled kit mentioned - Auto with Flag''\<rparr>
       else
         \<lparr>label = NO_CONSUMABLE_MENTIONED, confidence_level = LOW, action_path = RED,
          reasoning = ''No clear consumable/jigs/tools mentioned - Human Intervention Required''\<rparr>)"
  unfolding classify_material_def flags_of_def Let_def flags.select_convs by (rule refl)

lemma first_match_table:
  "first_match decision_table f =
    (if flag_consumable_jigs_tools f \<and> has_part_number f \<and> has_quantity f \<and> has_specifications f then
       Some (CONSUMABLE_WITH_PN_SPEC_QTY, HIGH, GREEN)
     else if flag_consumable_jigs_tools f \<and> has_part_number f \<and> has_quantity f then
       Some (CONSUMABLE_WITH_PN_QTY, HIGH, GREEN)
     else if flag_consumable_jigs_tools f \<and> has_part_number f \<and> \<not> has_quantity f then
       Some (CONSUMABLE_NO_QTY, MEDIUM, AMBER)
     else if flag_consumable_jigs_tools f \<and> \<not> has_part_number f then
       Some (CONSUMABLE_NO_PN, LOW, RED)
     else if flag_obsolete_pn f then Some (CONSUMABLE_OBSOLETE_PN, LOW, RED)
     else if flag_pn_mismatch f then Some (CONSUMABLE_PN_MISMATCH, LOW, RED)
     else if has_vendor f \<and> flag_kit_available f \<and> \<not> has_part_number f then
       Some (VENDOR_KIT_NO_PN, LOW, RED)
     else if has_vendor f \<and> \<not> flag_consumable_jigs_tools f then Some (VENDOR_NAME_ONLY, MEDIUM, AMBER)
     else if flag_kit_available f then Some (PRE_ASSEMBLED_KIT, MEDIUM, AMBER)
     else Some (NO_CONSUMABLE_MENTIONED, LOW, RED))"
  unfolding decision_table_def first_match.simps if_True by (rule refl)

lemma outcome_of_record:
  "outcome_of \<lparr>label = l, confidence_level = c, action_path = a, reasoning = r\<rparr> = (l, c, a)"
  by (simp add: outcome_of_def)

lemma outcome_of_classify:
  "first_match decision_table (flags_of md) = Some (outcome_of (classify_material md))"
  unfolding first_match_table classify_material_flags Let_def
  by (simp only: if_distrib [of outcome_of] if_distrib [of Some] outcome_of_record)

lemma first_match_in_table: "first_match rules f = Some out \<Longrightarrow> out \<in> snd ` set rules"
  by (induction rules f rule: first_match.induct) (auto split: if_splits)

lemma first_match_head: "cond f \<Longrightarrow> first_match ((cond, out) # rules) f = Some out"
  by simp

lemma classify_material_cong:
  "flags_of md' = flags_of md \<Longrightarrow> classify_material md' = classify_material md"
  unfolding classify_material_flags by (simp only:)

text \<open>
  Claim C2. The classifier is a total function of the eight flags of the material: its
  label, confidence level and action path are what the ten-rule decision table gives when
  its rules are tried in order and the first matching rule wins, so the outcome is always
  one of the table's ten. A material that satisfies rule 1 and rule 5 gets rule 1's
  outcome, and two materials with the same flags get the same classification.
\<close>

theorem classify_follows_decision_table:
  "length decision_table = 10
   \<and> first_match decision_table (flags_of md) = Some (outcome_of (classify_material md))
   \<and> outcome_of (classify_material md) \<in> snd ` set decision_table
   \<and> (fst (decision_table ! 0) (flags_of md) \<and> fst (decision_table ! 4) (flags_of md)
        \<longrightarrow> outcome_of (classify_material md) = snd (decision_table ! 0))
   \<and> (flags_of md' = flags_of md \<longrightarrow> classify_material md' = classify_material md)"
proof (intro conjI impI)
  show "length decision_table = 10"
    by (simp add: decision_table_def)
  show fm: "first_match decision_table (flags_of md) = Some (outcome_of (classify_material md))"
    by (rule outcome_of_classify)
  then show "outcome_of (classify_material md) \<in> snd ` set decision_table"
    by (rule first_match_in_table)
  show "classify_material md' = classify_material md" if "flags_of md' = flags_of md"
    using that by (rule classify_material_cong)
  show "outcome_of (classify_material md) = snd (decision_table ! 0)"
    if "fst (decision_table ! 0) (flags_of md) \<and> fst (decision_table ! 4) (flags_of md)"
  proof -
    obtain cond out rules where tbl: "decision_table = (cond, out) # rules"
      by (simp add: decision_table_def)
    from that have "cond (flags_of md)"
      by (simp add: tbl)
    then have "first_match decision_table (flags_of md) = Some out"
      unfolding tbl by (rule first_match_head)
    with fm show ?thesis
      by (simp add: tbl)
  qed
qed

lemma hex_bolt_obsolete_lookups:
  "dict_get hex_bolt_obsolete ''consumable_jigs_tools'' (PyBool False) = PyBool True"
  "dict_get hex_bolt_obsolete ''part_number'' PyNone = PyStr ''BOLT-M6-20-SS''"
  "dict_get hex_bolt_obsolete ''quantity'' PyNone = PyNum 4"
  "dict_get hex_bolt_obsolete ''specifications'' PyNone = PyDict [(''size'', ''M6x20mm'')]"
  "dict_get hex_bolt_obsolete ''vendor_name'' PyNone = PyNone"
  "dict_get hex_bolt_obsolete ''kit_available'' (PyBool False) = PyBool False"
  "dict_get hex_bolt_obsolete ''pn_mismatch'' (PyBool False) = PyBool False"
  "dict_get hex_bolt_obsolete ''obsolete_pn'' (PyBool False) = PyBool True"
  by (simp_all add: hex_bolt_obsolete_def dict_get_def)

lemma flags_hex_bolt_obsolete:
  "flags_of hex_bolt_obsolete =
    \<lparr>flag_consumable_jigs_tools = True, has_part_number = True, has_quantity = True,
     has_specifications = True, has_vendor = False, flag_kit_available = False,
     flag_pn_mismatch = False, flag_obsolete_pn = True\<rparr>"
  unfolding flags_of_def hex_bolt_obsolete_lookups by simp


theorem classify_follows_decision_table_witness:
  "fst (decision_table ! 0) (flags_of hex_bolt_obsolete)
   \<and> fst (decision_table ! 4) (flags_of hex_bolt_obsolete)
   \<and> outcome_of (classify_material hex_bolt_obsolete) = snd (decision_table ! 0)
   \<and> snd (decision_table ! 0) = (CONSUMABLE_WITH_PN_SPEC_QTY, HIGH, GREEN)"
proof -
  have r1: "fst (decision_table ! 0) (flags_of hex_bolt_obsolete)"
    unfolding flags_hex_bolt_obsolete by (simp add: decision_table_def)
  have r5: "fst (decision_table ! 4) (flags_of hex_bolt_obsolete)"
    unfolding flags_hex_bolt_obsolete by (simp add: decision_table_def)
  have out: "snd (decision_table ! 0) = (CONSUMABLE_WITH_PN_SPEC_QTY, HIGH, GREEN)"
    by (simp add: decision_table_def)
  note inst = classify_follows_decision_table [of hex_bolt_obsolete hex_bolt_obsolete]
  have "outcome_of (classify_material hex_bolt_obsolete) = snd (decision_table ! 0)"
    by (rule inst [THEN conjunct2, THEN conjunct2, THEN conjunct2, THEN conjunct1, THEN mp,
          OF conjI [OF r1 r5]])
  with r1 r5 out show ?thesis
    by (intro conjI)
qed

subsection \<open>Presence of the optional attributes\<close>




section \<open>Properties of the normalizer\<close>

lemma ord_lt: "ord c < 256"
  unfolding ord_def by (cases c) simp

lemma lower_char_idem: "lower_char (lower_char c) = lower_char c"
  using ord_lt [of c] by (auto simp: lower_char_def Let_def ord_def)

lemma isspace_space: "isspace (CHR '' '')"
  by (simp add: isspace_def ord_def)

lemma lower_space: "lower_char (CHR '' '') = CHR '' ''"
  by (simp add: lower_char_def ord_def)

lemma split_from_word:
  "list_all (\<lambda>c. \<not> isspace c) v \<Longrightarrow> split_from w (v @ rest) = split_from (w @ v) rest"
  by (induction v arbitrary: w) auto

lemma split_from_words:
  "list_all (\<lambda>c. \<not> isspace c) a \<Longrightarrow> list_all is_word (split_from a s)"
  by (induction a s rule: split_from.induct) (auto simp: is_word_def)

lemma split_from_chars:
  "set (concat (split_from a s)) \<subseteq> set a \<union> set s"
  by (induction a s rule: split_from.induct) auto

lemma str_split_words: "list_all is_word (str_split s)"
  by (simp add: str_split_def split_from_words)

lemma str_split_chars: "set (concat (str_split s)) \<subseteq> set s"
  using split_from_chars [of "[]" s] by (simp add: str_split_def)

lemma str_split_join: "list_all is_word ws \<Longrightarrow> str_split (str_join ws) = ws"
proof (induction ws rule: str_join.induct)
  case 1
  then show ?case by (simp add: str_split_def)
next
  case (2 w)
  then have "split_from [] (w @ []) = split_from ([] @ w) []"
    by (intro split_from_word) (simp add: is_word_def)
  with 2 show ?case by (simp add: str_split_def is_word_def)
next
  case (3 w v ws)
  then have "split_from [] (w @ CHR '' '' # str_join (v # ws))
      = split_from ([] @ w) (CHR '' '' # str_join (v # ws))"
    by (intro split_from_word) (simp add: is_word_def)
  with 3 show ?case by (simp add: str_split_def is_word_def isspace_space)
qed

lemma str_join_chars: "set (str_join ws) \<subseteq> set (concat ws) \<union> {CHR '' ''}"
  by (induction ws rule: str_join.induct) auto

lemma str_join_hd:
  "list_all is_word ws \<Longrightarrow> ws \<noteq> [] \<Longrightarrow>
    str_join ws \<noteq> [] \<and> \<not> isspace (hd (str_join ws)) \<and> \<not> isspace (last (str_join ws))"
proof (induction ws rule: str_join.induct)
  case 1
  then show ?case by simp
next
  case (2 w)
  then have "w \<noteq> []" "hd w \<in> set w" "last w \<in> set w" "\<forall>c\<in>set w. \<not> isspace c"
    by (auto simp: is_word_def list_all_iff)
  then show ?case by auto
next
  case (3 w v ws)
  then have "w \<noteq> []" "hd w \<in> set w" "\<forall>c\<in>set w. \<not> isspace c"
    by (auto simp: is_word_def list_all_iff)
  moreover from 3 have "str_join (v # ws) \<noteq> [] \<and> \<not> isspace (last (str_join (v # ws)))"
    by simp
  ultimately show ?case by auto
qed

lemma dropWhile_hd: "xs \<noteq> [] \<Longrightarrow> \<not> P (hd xs) \<Longrightarrow> dropWhile P xs = xs"
  by (cases xs) auto

lemma str_strip_fixed:
  assumes "s = [] \<or> (\<not> isspace (hd s) \<and> \<not> isspace (last s))"
  shows "str_strip s = s"
proof (cases "s = []")
  case True
  then show ?thesis by (simp add: str_strip_def)
next
  case False
  with assms have h: "\<not> isspace (hd s)" and l: "\<not> isspace (last s)" by auto
  from False h have "dropWhile isspace s = s"
    by (rule dropWhile_hd)
  moreover from False l have "dropWhile isspace (rev s) = rev s"
    by (intro dropWhile_hd) (simp_all add: hd_rev)
  ultimately show ?thesis by (simp add: str_strip_def)
qed


lemma str_strip_subset: "set (str_strip s) \<subseteq> set s"
proof -
  have "set (str_strip s) = set (dropWhile isspace (rev (dropWhile isspace s)))"
    by (simp add: str_strip_def)
  also have "\<dots> \<subseteq> set (rev (dropWhile isspace s))"
    by (auto dest: set_dropWhileD)
  also have "\<dots> \<subseteq> set s"
    by (auto dest: set_dropWhileD)
  finally show ?thesis .
qed

lemma normalize_str:
  "normalize_material_name (PyStr x) =
    Inr (str_join (str_split (filter (\<lambda>char. isalnum char \<or> isspace char) (str_strip (str_lower x)))))"
proof (cases "x = []")
  case True
  then show ?thesis
    by (simp add: normalize_material_name_def str_lower_def str_strip_def str_split_def)
next
  case False
  then show ?thesis
    by (simp add: normalize_material_name_def)
qed

lemma normalized_fixed:
  assumes y: "y = str_join (str_split (filter (\<lambda>char. isalnum char \<or> isspace char) (str_strip (str_lower x))))"
  shows "str_join (str_split (filter (\<lambda>char. isalnum char \<or> isspace char) (str_strip (str_lower y)))) = y"
proof -
  define s where "s = filter (\<lambda>char. isalnum char \<or> isspace char) (str_strip (str_lower x))"
  define ws where "ws = str_split s"
  have yws: "y = str_join ws"
    by (simp add: y ws_def s_def)
  have words: "list_all is_word ws"
    unfolding ws_def by (rule str_split_words)
  have "set s \<subseteq> set (str_lower x)"
    unfolding s_def using str_strip_subset [of "str_lower x"] by auto
  then have s_lower: "\<forall>c\<in>set s. lower_char c = c"
    by (auto simp: str_lower_def lower_char_idem)
  have s_keep: "\<forall>c\<in>set s. isalnum c \<or> isspace c"
    by (simp add: s_def)
  have "set y \<subseteq> set s \<union> {CHR '' ''}"
    using str_join_chars [of ws] str_split_chars [of s] by (auto simp: yws ws_def)
  with s_lower s_keep have y_lower: "\<forall>c\<in>set y. lower_char c = c"
    and y_keep: "\<forall>c\<in>set y. isalnum c \<or> isspace c"
    by (auto simp: lower_space isspace_space)
  from y_lower have 1: "str_lower y = y"
    by (simp add: str_lower_def map_idI)
  have 2: "str_strip y = y"
  proof (cases "ws = []")
    case True
    then show ?thesis by (simp add: yws str_strip_def)
  next
    case False
    with words show ?thesis
      unfolding yws by (intro str_strip_fixed disjI2) (simp add: str_join_hd)
  qed
  from y_keep have 3: "filter (\<lambda>char. isalnum char \<or> isspace char) y = y"
    by (simp add: filter_id_conv)
  from words have 4: "str_split y = ws"
    unfolding yws by (rule str_split_join)
  show ?thesis
    unfolding 1 2 3 4 by (simp add: yws)
qed

text \<open>
  Claim C8. The normalizer is idempotent. \<open>None\<close> and the empty string give the empty
  string; a string gives its lower-cased, stripped text with every character that is
  neither alphanumeric nor whitespace removed and the whitespace runs collapsed to single
  spaces, and normalizing that result again returns it unchanged.
\<close>

theorem normalize_idempotent:
  "normalize_material_name PyNone = Inr []
   \<and> normalize_material_name (PyStr []) = Inr []
   \<and> (\<exists>y. normalize_material_name (PyStr x) = Inr y
          \<and> y = str_join (str_split (filter (\<lambda>char. isalnum char \<or> isspace char) (str_strip (str_lower x))))
          \<and> normalize_material_name (PyStr y) = Inr y)"
proof (intro conjI exI)
  show "normalize_material_name PyNone = Inr []"
    by (simp add: normalize_material_name_def)
  show "normalize_material_name (PyStr []) = Inr []"
    by (simp add: normalize_material_name_def)
  let ?y = "str_join (str_split (filter (\<lambda>char. isalnum char \<or> isspace char) (str_strip (str_lower x))))"
  show "normalize_material_name (PyStr x) = Inr ?y"
    by (rule normalize_str)
  show "?y = ?y" ..
  show "normalize_material_name (PyStr ?y) = Inr ?y"
    unfolding normalize_str [of ?y] using normalized_fixed [OF refl, of x] by simp
qed

lemma normalize_hex_bolt:
  "normalize_material_name (PyStr ''  M6x20mm   Hex-Bolt!  (SS) '') = Inr ''m6x20mm hexbolt ss''"
  by code_simp



theorem normalize_idempotent_witness:
  "normalize_material_name (PyStr ''  M6x20mm   Hex-Bolt!  (SS) '') = Inr ''m6x20mm hexbolt ss''
   \<and> normalize_material_name (PyStr ''m6x20mm hexbolt ss'') = Inr ''m6x20mm hexbolt ss''"
proof -
  obtain y where a: "normalize_material_name (PyStr ''  M6x20mm   Hex-Bolt!  (SS) '') = Inr y"
    and b: "normalize_material_name (PyStr y) = Inr y"
    using normalize_idempotent [of "''  M6x20mm   Hex-Bolt!  (SS) ''"] by blast
  from a have "y = ''m6x20mm hexbolt ss''"
    unfolding normalize_hex_bolt by simp
  with a b show ?thesis by simp
qed

section \<open>Properties of the deduplication\<close>













section \<open>Properties of the statistics\<close>

lemma stats_unreachable:
  "\<not> reachable kb \<Longrightarrow> get_processing_stats kb =
    \<lparr>total_items = 0, total_workflows = 0, total_matches = 0, unique_matched_items = 0, match_rate = 0\<rparr>"
  by (simp add: get_processing_stats_def)

lemma stats_reachable:
  "reachable kb \<Longrightarrow> get_processing_stats kb =
    \<lparr>total_items = length (items_table kb),
     total_workflows = card (set (filter (\<lambda>w. w \<noteq> PyNone) (map workflow_id (items_table kb)))),
     total_matches = length (item_matches_table kb),
     unique_matched_items =
       card (set (filter (\<lambda>i. i \<noteq> None) (map original_item_id (item_matches_table kb)))),
     match_rate =
       (if 0 < length (items_table kb)
        then py_mul (py_truediv
          (card (set (filter (\<lambda>i. i \<noteq> None) (map original_item_id (item_matches_table kb)))))
          (length (items_table kb))) 100 else 0)\<rparr>"
  by (simp add: get_processing_stats_def Let_def)

lemma stats_after_clear:
  "get_processing_stats (clear_all_data kb) =
    \<lparr>total_items = 0, total_workflows = 0, total_matches = 0, unique_matched_items = 0, match_rate = 0\<rparr>"
proof (cases "reachable kb")
  case True
  then have "reachable (clear_all_data kb)" "items_table (clear_all_data kb) = []"
    "item_matches_table (clear_all_data kb) = []"
    by (simp_all add: clear_all_data_def)
  then show ?thesis
    by (simp add: stats_reachable)
next
  case False
  then have "\<not> reachable (clear_all_data kb)"
    by (simp add: clear_all_data_def)
  then show ?thesis
    by (rule stats_unreachable)
qed

text \<open>
  Claim C9. The match rate of the statistics is the number of distinct matched items
  divided by the number of items, times 100, and 0 when there are no items. After
  \<open>clear_all_data\<close> every number of the statistics is 0, and so is the match rate.
\<close>

theorem stats_match_rate:
  "match_rate (get_processing_stats kb) =
    (if 0 < total_items (get_processing_stats kb)
     then py_mul (py_truediv (unique_matched_items (get_processing_stats kb))
            (total_items (get_processing_stats kb))) 100
     else 0)
   \<and> (total_items (get_processing_stats kb) = 0 \<longrightarrow> match_rate (get_processing_stats kb) = 0)
   \<and> get_processing_stats (clear_all_data kb) =
      \<lparr>total_items = 0, total_workflows = 0, total_matches = 0, unique_matched_items = 0,
       match_rate = 0\<rparr>"
proof (cases "reachable kb")
  case True
  show ?thesis
    unfolding stats_after_clear stats_reachable [OF True] by simp
next
  case False
  show ?thesis
    unfolding stats_after_clear stats_unreachable [OF False] by simp
qed

lemma busy_stats:
  "get_processing_stats busy_kb =
    \<lparr>total_items = 2, total_workflows = 1, total_matches = 3, unique_matched_items = 1,
     match_rate = 50\<rparr>"
proof -
  have r: "reachable busy_kb"
    by (simp add: busy_kb_def)
  have t: "length (items_table busy_kb) = 2" "length (item_matches_table busy_kb) = 3"
    by (simp_all add: busy_kb_def)
  have w: "filter (\<lambda>w. w \<noteq> PyNone) (map workflow_id (items_table busy_kb)) = [PyStr ''wf-0'']"
    by (simp add: busy_kb_def bolt_row_def)
  have u: "filter (\<lambda>i. i \<noteq> None) (map original_item_id (item_matches_table busy_kb)) = [Some 7, Some 7]"
    by (simp add: busy_kb_def)
  have m: "py_mul (py_truediv (Suc 0) 2) 100 = 50"
    by code_simp
  show ?thesis
    unfolding stats_reachable [OF r] t w u by (simp add: m)
qed

theorem stats_match_rate_witness:
  "get_processing_stats busy_kb =
      \<lparr>total_items = 2, total_workflows = 1, total_matches = 3, unique_matched_items = 1,
       match_rate = 50\<rparr>
   \<and> get_processing_stats (clear_all_data busy_kb) =
      \<lparr>total_items = 0, total_workflows = 0, total_matches = 0, unique_matched_items = 0,
       match_rate = 0\<rparr>
   \<and> total_items (get_processing_stats (clear_all_data busy_kb)) = 0
   \<and> match_rate (get_processing_stats (clear_all_data busy_kb)) = 0"
  using stats_match_rate [of busy_kb] stats_match_rate [of "clear_all_data busy_kb"] busy_stats
  by simp

section \<open>Properties of the knowledge base\<close>

lemma execute_insert_row:
  "execute_insert new_id t normalized item workflow source = Inr r
    \<Longrightarrow> row_id r = new_id \<and> normalized_name r = normalized \<and> created_at r = t
      \<and> material_name r = stored (dict_get item ''qa_material_name'' (PyStr []))
      \<and> part_number r = stored (dict_get item ''part_number'' PyNone)"
  by (auto simp: execute_insert_def Let_def split: if_splits)









lemma find_similar_items_reachable:
  assumes "reachable kb" "normalize_material_name query = Inr q" "q \<noteq> []"
  shows "find_similar_items kb query pn
    = map (\<lambda>r. \<lparr>confidence_score = 1, match_type = ''exact'', row = r\<rparr>)
        (select_exact (items_table kb) q)"
  using assms by (simp add: find_similar_items_def)




lemma execute_insert_succeeds:
  assumes "list_all supported
      [dict_get item ''qa_material_name'' (PyStr []), dict_get item ''part_number'' PyNone,
       dict_get item ''vendor_name'' PyNone, dict_get item ''qa_classification_label'' PyNone,
       dict_get item ''qa_confidence_level'' PyNone, dict_get item ''qc_process_step'' PyNone,
       dict_get item ''unit_of_measure'' PyNone, dict_get item ''quantity'' PyNone,
       dict_get item ''consumable_jigs_tools'' (PyBool False), workflow, source,
       dict_get item ''qa_excerpt'' (PyStr []), dict_get item ''category'' (PyStr [])]"
    and "dict_get item ''qa_material_name'' (PyStr []) \<noteq> PyNone"
  shows "\<exists>r. execute_insert new_id t normalized item workflow source = Inr r"
  using assms by (simp add: execute_insert_def Let_def)


lemma add_items_single:
  assumes "reachable kb"
    and "normalize_material_name (dict_get item ''qa_material_name'' (PyStr [])) = Inr n"
    and "execute_insert (Suc (sqlite_sequence kb)) (now 0) n item workflow source = Inr r"
  shows "add_items kb now [item] workflow source
    = (kb\<lparr>items_table := items_table kb @ [r], sqlite_sequence := Suc (sqlite_sequence kb)\<rparr>,
       [Suc (sqlite_sequence kb)])"
  using assms by (simp add: add_items_def)

lemma bolt_item_lookups:
  "dict_get bolt_item ''qa_material_name'' (PyStr []) = PyStr ''M6 Hex Bolt''"
  "dict_get bolt_item ''part_number'' (PyStr []) = PyStr ''BOLT-M6''"
  "dict_get bolt_item ''part_number'' PyNone = PyStr ''BOLT-M6''"
  "dict_get bolt_item ''vendor_name'' PyNone = PyNone"
  "dict_get bolt_item ''qa_classification_label'' PyNone = PyNone"
  "dict_get bolt_item ''qa_confidence_level'' PyNone = PyNone"
  "dict_get bolt_item ''qc_process_step'' PyNone = PyNone"
  "dict_get bolt_item ''unit_of_measure'' PyNone = PyNone"
  "dict_get bolt_item ''quantity'' PyNone = PyNone"
  "dict_get bolt_item ''consumable_jigs_tools'' (PyBool False) = PyBool False"
  "dict_get bolt_item ''qa_excerpt'' (PyStr []) = PyStr []"
  "dict_get bolt_item ''category'' (PyStr []) = PyStr []"
  by (simp_all add: bolt_item_def dict_get_def)



lemma normalize_more_examples:
  "normalize_material_name (PyStr ''M6 Hex Bolt'') = Inr ''m6 hex bolt''"
  "normalize_material_name (PyStr ''m6  HEX bolt!'') = Inr ''m6 hex bolt''"
  "normalize_material_name (PyStr ''Washer'') = Inr ''washer''"
  "normalize_material_name (PyStr ''!!!'') = Inr []"
  by code_simp+

lemma empty_kb_fields:
  "reachable empty_kb" "items_table empty_kb = []" "sqlite_sequence empty_kb = 0"
  "item_matches_table empty_kb = []"
  by (simp_all add: empty_kb_def)

lemma add_bolt:
  "\<exists>r. add_items empty_kb noon [bolt_item] (PyStr ''wf-1'') PyNone
        = (empty_kb\<lparr>items_table := [r], sqlite_sequence := 1\<rparr>, [1])
      \<and> row_id r = 1 \<and> normalized_name r = ''m6 hex bolt'' \<and> created_at r = 43200
      \<and> material_name r = PyStr ''M6 Hex Bolt'' \<and> part_number r = PyStr ''BOLT-M6''"
proof -
  have "\<exists>r. execute_insert (Suc (sqlite_sequence empty_kb)) (noon 0) ''m6 hex bolt''
      bolt_item (PyStr ''wf-1'') PyNone = Inr r"
    by (rule execute_insert_succeeds) (simp_all add: bolt_item_lookups)
  then obtain r where r: "execute_insert (Suc (sqlite_sequence empty_kb)) (noon 0) ''m6 hex bolt''
      bolt_item (PyStr ''wf-1'') PyNone = Inr r"
    by blast
  have n: "normalize_material_name (dict_get bolt_item ''qa_material_name'' (PyStr [])) = Inr ''m6 hex bolt''"
    unfolding bolt_item_lookups by (rule normalize_more_examples)
  from add_items_single [where now = noon, OF empty_kb_fields(1) n r] execute_insert_row [OF r]
  show ?thesis
    unfolding bolt_item_lookups by (auto simp: empty_kb_fields noon_def)
qed

subsection \<open>Failures of the store\<close>





subsection \<open>Insert, then look up\<close>





section \<open>Properties of the best-match selection\<close>

lemma max_loop_props:
  "max_loop key b xs \<in> set (b # xs) \<and> key b \<le> key (max_loop key b xs)
   \<and> list_all (\<lambda>y. key y \<le> key (max_loop key b xs)) xs"
proof (induction xs arbitrary: b)
  case Nil
  then show ?case by simp
next
  case (Cons x xs)
  let ?b = "if key b < key x then x else b"
  from Cons [of ?b] have m: "max_loop key ?b xs \<in> set (?b # xs)"
    and le: "key ?b \<le> key (max_loop key ?b xs)"
    and all: "list_all (\<lambda>y. key y \<le> key (max_loop key ?b xs)) xs"
    by blast+
  from le have "key b \<le> key (max_loop key ?b xs)" "key x \<le> key (max_loop key ?b xs)"
    by (auto split: if_splits)
  with m all show ?case
    by (auto split: if_splits)
qed

lemma max_loop_highest: "highest_scoring key (b # xs) (max_loop key b xs)"
  using max_loop_props [of key b xs] by (simp add: highest_scoring_def)

lemma highest_scoring_above:
  "highest_scoring key xs x \<Longrightarrow> (t < key x) = list_ex (\<lambda>y. t < key y) xs"
  by (auto simp: highest_scoring_def list_all_iff list_ex_iff)

lemma select_exact_case:
  assumes "find (\<lambda>k. match_type k = ''exact'') kb_matches = Some k"
  shows "select_best_match item kb_matches supplier_matches
    = Some (from_knowledge_base (fl (9 / 10)) ''exact'' k)"
  using assms by (simp add: select_best_match_def from_knowledge_base_def)

lemma select_no_exact:
  assumes "find (\<lambda>k. match_type k = ''exact'') kb_matches = None"
  shows "select_best_match item kb_matches supplier_matches =
    (case supplier_matches of [] \<Rightarrow> fuzzy_of kb_matches
     | s # ss \<Rightarrow> if fl (7 / 10) < confidence_score (max_loop confidence_score s ss)
         then Some (from_supplier (max_loop confidence_score s ss)) else fuzzy_of kb_matches)"
  using assms
  by (simp add: select_best_match_def from_knowledge_base_def from_supplier_def fuzzy_of_def Let_def
      split: list.splits)


lemma no_exact_find:
  "\<not> list_ex (\<lambda>k. match_type k = ''exact'') kb_matches
    \<Longrightarrow> find (\<lambda>k. match_type k = ''exact'') kb_matches = None"
  by (simp add: find_None_iff list_ex_iff)

lemma supplier_stage_none:
  assumes "\<not> list_ex (\<lambda>s. fl (7 / 10) < confidence_score s) supplier_matches"
    and "find (\<lambda>k. match_type k = ''exact'') kb_matches = None"
  shows "select_best_match item kb_matches supplier_matches = fuzzy_of kb_matches"
proof (cases supplier_matches)
  case Nil
  with assms(2) show ?thesis by (simp add: select_no_exact)
next
  case (Cons s ss)
  have "\<not> fl (7 / 10) < confidence_score (max_loop confidence_score s ss)"
    using assms(1) highest_scoring_above [OF max_loop_highest, of "fl (7 / 10)" confidence_score s ss]
    by (simp add: Cons)
  with assms(2) Cons show ?thesis by (simp add: select_no_exact)
qed

text \<open>
  Claim C3. The best match is chosen in a fixed precedence: the first knowledge-base match
  of type exact, reported with confidence 0.9; else a highest-scoring supplier match when
  its score exceeds 0.7, with its own score; else a highest-scoring knowledge-base match,
  reported as fuzzy with confidence 0.6; else none. The match source is hybrid when both
  lists have matches, else the list that has some, else no_match.
\<close>

theorem select_best_match_precedence:
  "(list_ex (\<lambda>k. match_type k = ''exact'') kb_matches \<longrightarrow>
      (\<exists>k. find (\<lambda>k. match_type k = ''exact'') kb_matches = Some k
         \<and> select_best_match item kb_matches supplier_matches
             = Some (from_knowledge_base (fl (9 / 10)) ''exact'' k)))
   \<and> (\<not> list_ex (\<lambda>k. match_type k = ''exact'') kb_matches
        \<and> list_ex (\<lambda>s. fl (7 / 10) < confidence_score s) supplier_matches \<longrightarrow>
      (\<exists>s. highest_scoring confidence_score supplier_matches s
         \<and> select_best_match item kb_matches supplier_matches = Some (from_supplier s)))
   \<and> (\<not> list_ex (\<lambda>k. match_type k = ''exact'') kb_matches
        \<and> \<not> list_ex (\<lambda>s. fl (7 / 10) < confidence_score s) supplier_matches
        \<and> kb_matches \<noteq> [] \<longrightarrow>
      (\<exists>k. highest_scoring confidence_score kb_matches k
         \<and> select_best_match item kb_matches supplier_matches
             = Some (from_knowledge_base (fl (6 / 10)) ''fuzzy'' k)))
   \<and> (kb_matches = []
        \<and> \<not> list_ex (\<lambda>s. fl (7 / 10) < confidence_score s) supplier_matches \<longrightarrow>
      select_best_match item kb_matches supplier_matches = None)
   \<and> determine_match_source kb_matches supplier_matches =
      (if kb_matches \<noteq> [] \<and> supplier_matches \<noteq> [] then ''hybrid''
       else if kb_matches \<noteq> [] then ''knowledge_base''
       else if supplier_matches \<noteq> [] then ''supplier_bom''
       else ''no_match'')"
proof (intro conjI impI)
  assume "list_ex (\<lambda>k. match_type k = ''exact'') kb_matches"
  then obtain k where "find (\<lambda>k. match_type k = ''exact'') kb_matches = Some k"
    by (cases "find (\<lambda>k. match_type k = ''exact'') kb_matches")
      (auto simp: find_None_iff list_ex_iff)
  then show "\<exists>k. find (\<lambda>k. match_type k = ''exact'') kb_matches = Some k
         \<and> select_best_match item kb_matches supplier_matches
             = Some (from_knowledge_base (fl (9 / 10)) ''exact'' k)"
    by (auto simp: select_exact_case)
next
  assume h: "\<not> list_ex (\<lambda>k. match_type k = ''exact'') kb_matches
        \<and> list_ex (\<lambda>s. fl (7 / 10) < confidence_score s) supplier_matches"
  then have none: "find (\<lambda>k. match_type k = ''exact'') kb_matches = None"
    by (simp add: no_exact_find)
  from h obtain s ss where ss: "supplier_matches = s # ss"
    by (cases supplier_matches) auto
  let ?best = "max_loop confidence_score s ss"
  have hi: "highest_scoring confidence_score supplier_matches ?best"
    unfolding ss by (rule max_loop_highest)
  with h have "fl (7 / 10) < confidence_score ?best"
    by (simp add: highest_scoring_above)
  with none have "select_best_match item kb_matches supplier_matches = Some (from_supplier ?best)"
    by (simp add: select_no_exact ss)
  with hi show "\<exists>s. highest_scoring confidence_score supplier_matches s
         \<and> select_best_match item kb_matches supplier_matches = Some (from_supplier s)"
    by blast
next
  assume h: "\<not> list_ex (\<lambda>k. match_type k = ''exact'') kb_matches
        \<and> \<not> list_ex (\<lambda>s. fl (7 / 10) < confidence_score s) supplier_matches
        \<and> kb_matches \<noteq> []"
  then have sel: "select_best_match item kb_matches supplier_matches = fuzzy_of kb_matches"
    by (simp add: supplier_stage_none no_exact_find)
  from h obtain k ks where kb: "kb_matches = k # ks"
    by (cases kb_matches) auto
  have "highest_scoring confidence_score kb_matches (max_loop confidence_score k ks)"
    unfolding kb by (rule max_loop_highest)
  moreover have "fuzzy_of kb_matches
      = Some (from_knowledge_base (fl (6 / 10)) ''fuzzy'' (max_loop confidence_score k ks))"
    by (simp add: fuzzy_of_def kb)
  ultimately show "\<exists>k. highest_scoring confidence_score kb_matches k
         \<and> select_best_match item kb_matches supplier_matches
             = Some (from_knowledge_base (fl (6 / 10)) ''fuzzy'' k)"
    using sel by auto
next
  assume h: "kb_matches = []
        \<and> \<not> list_ex (\<lambda>s. fl (7 / 10) < confidence_score s) supplier_matches"
  then have "select_best_match item kb_matches supplier_matches = fuzzy_of kb_matches"
    by (simp add: supplier_stage_none)
  with h show "select_best_match item kb_matches supplier_matches = None"
    by (simp add: fuzzy_of_def)
next
  show "determine_match_source kb_matches supplier_matches =
      (if kb_matches \<noteq> [] \<and> supplier_matches \<noteq> [] then ''hybrid''
       else if kb_matches \<noteq> [] then ''knowledge_base''
       else if supplier_matches \<noteq> [] then ''supplier_bom''
       else ''no_match'')"
    by (simp only: determine_match_source_def)
qed


lemma fl_order:
  "fl (2 / 5) < fl (19 / 20)"
  "fl (7 / 10) < fl (19 / 20)"
  "\<not> fl (7 / 10) < fl (2 / 5)"
  "\<not> fl (7 / 10) < 2 / 5"
  by code_simp+

lemma example_scores:
  "confidence_score supplier_by_part = fl (95 / 100)"
  "confidence_score supplier_by_words = fl (4 / 10)"
  "confidence_score kb_fuzzy = 4 / 10"
  "match_type kb_fuzzy = ''fuzzy''"
  "match_type kb_exact = ''exact''"
  by (simp_all add: supplier_by_part_def supplier_by_words_def kb_fuzzy_def kb_exact_def)

theorem select_best_match_precedence_witness:
  "select_best_match Map.empty [kb_fuzzy, kb_exact] [supplier_by_part]
      = Some (from_knowledge_base (fl (9 / 10)) ''exact'' kb_exact)
   \<and> select_best_match Map.empty [kb_fuzzy] [supplier_by_words, supplier_by_part]
      = Some (from_supplier supplier_by_part)
   \<and> select_best_match Map.empty [kb_fuzzy] [supplier_by_words]
      = Some (from_knowledge_base (fl (6 / 10)) ''fuzzy'' kb_fuzzy)
   \<and> select_best_match Map.empty [] [supplier_by_words] = None"
proof (intro conjI)
  note a = select_best_match_precedence
    [of "[kb_fuzzy, kb_exact]" Map.empty "[supplier_by_part]", THEN conjunct1, THEN mp]
  have "list_ex (\<lambda>k. match_type k = ''exact'') [kb_fuzzy, kb_exact]"
    by (simp add: example_scores)
  from a [OF this] obtain k where
    "find (\<lambda>k. match_type k = ''exact'') [kb_fuzzy, kb_exact] = Some k"
    and sel: "select_best_match Map.empty [kb_fuzzy, kb_exact] [supplier_by_part]
      = Some (from_knowledge_base (fl (9 / 10)) ''exact'' k)"
    by blast
  then have "k = kb_exact"
    by (simp add: example_scores)
  with sel show "select_best_match Map.empty [kb_fuzzy, kb_exact] [supplier_by_part]
      = Some (from_knowledge_base (fl (9 / 10)) ''exact'' kb_exact)"
    by simp
next
  note b = select_best_match_precedence
    [of "[kb_fuzzy]" Map.empty "[supplier_by_words, supplier_by_part]",
      THEN conjunct2, THEN conjunct1, THEN mp]
  have "\<not> list_ex (\<lambda>k. match_type k = ''exact'') [kb_fuzzy]
      \<and> list_ex (\<lambda>s. fl (7 / 10) < confidence_score s) [supplier_by_words, supplier_by_part]"
    by (simp add: example_scores fl_order)
  from b [OF this] obtain s where
    hi: "highest_scoring confidence_score [supplier_by_words, supplier_by_part] s"
    and sel: "select_best_match Map.empty [kb_fuzzy] [supplier_by_words, supplier_by_part]
      = Some (from_supplier s)"
    by blast
  from hi have "s = supplier_by_part"
    using fl_order(1) by (auto simp: highest_scoring_def example_scores)
  with sel show "select_best_match Map.empty [kb_fuzzy] [supplier_by_words, supplier_by_part]
      = Some (from_supplier supplier_by_part)"
    by simp
next
  note c = select_best_match_precedence
    [of "[kb_fuzzy]" Map.empty "[supplier_by_words]",
      THEN conjunct2, THEN conjunct2, THEN conjunct1, THEN mp]
  have "\<not> list_ex (\<lambda>k. match_type k = ''exact'') [kb_fuzzy]
      \<and> \<not> list_ex (\<lambda>s. fl (7 / 10) < confidence_score s) [supplier_by_words]
      \<and> [kb_fuzzy] \<noteq> []"
    by (simp add: example_scores fl_order)
  from c [OF this] obtain k where
    hi: "highest_scoring confidence_score [kb_fuzzy] k"
    and sel: "select_best_match Map.empty [kb_fuzzy] [supplier_by_words]
      = Some (from_knowledge_base (fl (6 / 10)) ''fuzzy'' k)"
    by blast
  from hi have "k = kb_fuzzy"
    by (simp add: highest_scoring_def)
  with sel show "select_best_match Map.empty [kb_fuzzy] [supplier_by_words]
      = Some (from_knowledge_base (fl (6 / 10)) ''fuzzy'' kb_fuzzy)"
    by simp
next
  note d = select_best_match_precedence
    [of "[]" Map.empty "[supplier_by_words]",
      THEN conjunct2, THEN conjunct2, THEN conjunct2, THEN conjunct1, THEN mp]
  have "([] :: kb_match list) = []
      \<and> \<not> list_ex (\<lambda>s. fl (7 / 10) < confidence_score s) [supplier_by_words]"
    by (simp add: example_scores fl_order)
  from d [OF this] show "select_best_match Map.empty [] [supplier_by_words] = None" .
qed

section \<open>Properties of the supplier candidates\<close>

lemma fl_thresholds:
  "fl (9 / 10) < fl (19 / 20)"
  "\<not> fl (9 / 10) < 0"
  "\<not> fl (3 / 10) < 0"
  by code_simp+

lemma text_conditions:
  assumes "is_text p" "is_text sp"
  shows "(truthy p \<and> truthy sp \<and> py_eq p sp)
    = (text_of p \<noteq> [] \<and> text_of sp \<noteq> [] \<and> text_of p = text_of sp)"
  using assms by (cases p; cases sp) auto

lemma split_empty: "str_split [] = []"
  by (simp add: str_split_def)

lemma common_words:
  "(set a \<inter> set b \<noteq> {}) = (0 < card (set a \<inter> set b))"
  by (simp add: card_gt_0_iff)

lemma supplier_confidence_spec:
  assumes "is_text p" "is_text sp"
  shows "supplier_confidence (str_lower n) p (str_lower d) sp
    = fst (spec_score n (text_of p) d (text_of sp))"
proof (cases "truthy p \<and> truthy sp \<and> py_eq p sp")
  case True
  then show ?thesis
    using text_conditions [OF assms] by (simp add: supplier_confidence_def spec_score_def)
next
  case False
  then have code: "(truthy p \<and> truthy sp \<and> py_eq p sp) = False"
    by simp
  with text_conditions [OF assms]
  have spec: "(text_of p \<noteq> [] \<and> text_of sp \<noteq> [] \<and> text_of p = text_of sp) = False"
    by simp
  show ?thesis
  proof (cases "str_lower n \<noteq> [] \<and> str_lower d \<noteq> []")
    case True
    then show ?thesis
      unfolding supplier_confidence_def spec_score_def code spec if_False
      by (simp add: Let_def common_words)
  next
    case False
    then have "set (str_split (str_lower n)) \<inter> set (str_split (str_lower d)) = {}"
      by (auto simp: split_empty)
    with False show ?thesis
      unfolding supplier_confidence_def spec_score_def code spec if_False
      by (simp add: Let_def)
  qed
qed

lemma spec_match_type:
  "snd (spec_score n p d sp)
    = (if fl (9 / 10) < fst (spec_score n p d sp) then ''part_number'' else ''description'')"
  by (simp add: spec_score_def Let_def fl_thresholds min_def)


lemma supplier_loop_step:
  assumes n: "dict_get item ''qa_material_name'' (PyStr []) = PyStr n"
    and p: "is_text (dict_get item ''part_number'' (PyStr []))"
    and si: "typed_supplier_item si"
  shows "supplier_loop (str_lower n) (dict_get item ''part_number'' (PyStr [])) (si # bom) acc
    = supplier_loop (str_lower n) (dict_get item ''part_number'' (PyStr [])) bom
        (acc @ filter (\<lambda>c. fl (3 / 10) < confidence_score c) [spec_candidate item si])"
proof -
  from si obtain d where d: "dict_get si ''description'' (PyStr []) = PyStr d"
    by (cases "dict_get si ''description'' (PyStr [])") (auto simp: typed_supplier_item_def)
  from si have sp: "is_text (dict_get si ''part_number'' (PyStr []))"
    by (simp add: typed_supplier_item_def)
  show ?thesis
    by (simp add: d n Let_def supplier_confidence_spec [OF p sp] spec_candidate_def spec_match_type)
qed

lemma supplier_loop_spec:
  assumes n: "dict_get item ''qa_material_name'' (PyStr []) = PyStr n"
    and p: "is_text (dict_get item ''part_number'' (PyStr []))"
    and bom: "list_all typed_supplier_item bom"
  shows "supplier_loop (str_lower n) (dict_get item ''part_number'' (PyStr [])) bom acc
    = Inr (acc @ filter (\<lambda>c. fl (3 / 10) < confidence_score c) (map (spec_candidate item) bom))"
  using bom
proof (induction bom arbitrary: acc)
  case Nil
  then show ?case by simp
next
  case (Cons si bom)
  then have "typed_supplier_item si" and rest: "list_all typed_supplier_item bom"
    by simp_all
  from supplier_loop_step [OF n p this(1)] Cons.IH [OF rest] show ?case
    by simp
qed

lemma sorted_reverse_descending: "sorted (rev (map key (sorted_reverse key xs)))"
  by (simp add: sorted_reverse_def rev_map)

lemma sorted_reverse_stable:
  "filter (\<lambda>x. key x = k) (sorted_reverse key xs) = filter (\<lambda>x. key x = k) xs"
proof -
  have "filter (\<lambda>x. key x = k) (sorted_reverse key xs)
      = rev (filter (\<lambda>x. key x = k) (sort_key key (rev xs)))"
    by (simp add: sorted_reverse_def rev_filter)
  also have "\<dots> = rev (filter (\<lambda>x. key x = k) (rev xs))"
    by (simp only: sort_key_stable)
  also have "\<dots> = filter (\<lambda>x. key x = k) xs"
    by (simp add: rev_filter)
  finally show ?thesis .
qed

lemma sorted_reverse_set: "set (sorted_reverse key xs) = set xs"
  by (simp add: sorted_reverse_def)

text \<open>
  Claim C4. For a material with a string name and a supplier BOM of string descriptions
  (part numbers strings or absent), the supplier matches are exactly the candidates of
  the specification - every supplier item scored 0.95 as a part-number match for equal
  non-empty part numbers, else by the share of common case-folded tokens times 0.8, at most
  0.9, as a description match, else 0 - with the candidates of score at most 0.3 left
  out, sorted by score in descending order, candidates of equal score in the order of the
  supplier BOM.
\<close>

theorem find_supplier_matches_spec:
  assumes "typed_item item" and "list_all typed_supplier_item supplier_bom"
  shows "\<exists>ms. find_supplier_matches item supplier_bom = Inr ms
    \<and> ms = sorted_reverse confidence_score
          (filter (\<lambda>c. fl (3 / 10) < confidence_score c) (map (spec_candidate item) supplier_bom))
    \<and> list_all (\<lambda>c. fl (3 / 10) < confidence_score c) ms
    \<and> sorted (rev (map confidence_score ms))
    \<and> (\<forall>k. filter (\<lambda>c. confidence_score c = k) ms
          = filter (\<lambda>c. confidence_score c = k)
              (filter (\<lambda>c. fl (3 / 10) < confidence_score c) (map (spec_candidate item) supplier_bom)))"
proof -
  let ?kept = "filter (\<lambda>c. fl (3 / 10) < confidence_score c) (map (spec_candidate item) supplier_bom)"
  from assms(1) obtain n where n: "dict_get item ''qa_material_name'' (PyStr []) = PyStr n"
    by (cases "dict_get item ''qa_material_name'' (PyStr [])") (auto simp: typed_item_def)
  from assms(1) have p: "is_text (dict_get item ''part_number'' (PyStr []))"
    by (simp add: typed_item_def)
  have "find_supplier_matches item supplier_bom = Inr (sorted_reverse confidence_score ?kept)"
    by (simp add: find_supplier_matches_def n supplier_loop_spec [OF n p assms(2)])
  moreover have "list_all (\<lambda>c. fl (3 / 10) < confidence_score c) (sorted_reverse confidence_score ?kept)"
    by (simp add: list_all_iff sorted_reverse_set)
  ultimately show ?thesis
    by (simp add: sorted_reverse_descending sorted_reverse_stable)
qed

lemma bolt_typed: "typed_item bolt_item" "list_all typed_supplier_item bolt_bom"
  by (simp_all add: typed_item_def typed_supplier_item_def bolt_item_def bolt_bom_def dict_get_def)

lemma bolt_matches:
  "map supplier_description (sorted_reverse confidence_score
     (filter (\<lambda>c. fl (3 / 10) < confidence_score c) (map (spec_candidate bolt_item) bolt_bom)))
    = [PyStr ''washer'', PyStr ''Bolt HEX m6'', PyStr ''hex bolt stainless'', PyStr ''m6 hex nut'']"
  by code_simp

theorem find_supplier_matches_spec_witness:
  "typed_item bolt_item \<and> list_all typed_supplier_item bolt_bom
   \<and> (\<exists>ms. find_supplier_matches bolt_item bolt_bom = Inr ms
        \<and> map supplier_description ms
          = [PyStr ''washer'', PyStr ''Bolt HEX m6'', PyStr ''hex bolt stainless'', PyStr ''m6 hex nut''])"
proof -
  from find_supplier_matches_spec [OF bolt_typed] obtain ms where
    "find_supplier_matches bolt_item bolt_bom = Inr ms"
    and "ms = sorted_reverse confidence_score
          (filter (\<lambda>c. fl (3 / 10) < confidence_score c) (map (spec_candidate bolt_item) bolt_bom))"
    by blast
  then have "\<exists>ms. find_supplier_matches bolt_item bolt_bom = Inr ms
        \<and> map supplier_description ms
          = [PyStr ''washer'', PyStr ''Bolt HEX m6'', PyStr ''hex bolt stainless'', PyStr ''m6 hex nut'']"
    using bolt_matches by simp
  with bolt_typed show ?thesis
    by (intro conjI)
qed

section \<open>Properties of the batch matching\<close>

lemma match_item_exact:
  assumes kb: "find_similar_items kb (dict_get item ''qa_material_name'' (PyStr []))
      (dict_get item ''part_number'' (PyStr [])) = k # ks"
    and exact: "match_type k = ''exact''"
    and sup: "find_supplier_matches item supplier_bom = Inr ms"
  shows "\<exists>r. match_item kb supplier_bom item = Inr r
    \<and> dict_get r ''has_previous_match'' PyNone = PyBool True
    \<and> dict_get r ''knowledge_base_matches'' PyNone = PyNum (of_nat (length (k # ks)))
    \<and> dict_get r ''confidence_score'' PyNone = PyNum (fl (9 / 10))
    \<and> dict_get r ''supplier_description'' PyNone = material_name (row k)
    \<and> dict_get r ''reasoning'' PyNone
        = PyStr (''Exact match found in knowledge base from previous workflow (confidence: ''
            @ format_percent (fl (9 / 10)) @ '')'')"
proof -
  have "find (\<lambda>k. match_type k = ''exact'') (k # ks) = Some k"
    by (simp add: exact)
  then have best: "select_best_match item (k # ks) ms
      = Some (from_knowledge_base (fl (9 / 10)) ''exact'' k)"
    by (rule select_exact_case)
  have reason: "generate_match_reasoning (k # ks) ms (Some (from_knowledge_base (fl (9 / 10)) ''exact'' k))
      = ''Exact match found in knowledge base from previous workflow (confidence: ''
            @ format_percent (fl (9 / 10)) @ '')''"
    by (simp add: generate_match_reasoning_def from_knowledge_base_def)
  have fields: "confidence_score (from_knowledge_base (fl (9 / 10)) ''exact'' k) = fl (9 / 10)"
    "supplier_description (from_knowledge_base (fl (9 / 10)) ''exact'' k) = material_name (row k)"
    by (simp_all add: from_knowledge_base_def)
  show ?thesis
    unfolding match_item_def Let_def kb sup sum.case best reason option.case fields
    by (simp add: dict_get_def)
qed


lemma find_supplier_matches_typed:
  assumes "typed_item item" and "list_all typed_supplier_item supplier_bom"
  shows "find_supplier_matches item supplier_bom = Inr (sorted_reverse confidence_score
    (filter (\<lambda>c. fl (3 / 10) < confidence_score c) (map (spec_candidate item) supplier_bom)))"
proof -
  from assms(1) obtain n where n: "dict_get item ''qa_material_name'' (PyStr []) = PyStr n"
    by (cases "dict_get item ''qa_material_name'' (PyStr [])") (auto simp: typed_item_def)
  from assms(1) have p: "is_text (dict_get item ''part_number'' (PyStr []))"
    by (simp add: typed_item_def)
  show ?thesis
    by (simp add: find_supplier_matches_def n supplier_loop_spec [OF n p assms(2)])
qed

lemma ninety_percent: "format_percent (fl (9 / 10)) = ''90.0%''"
  by code_simp

text \<open>
  Claim C1 fails on the code. The whole batch is inserted before the first lookup, so the
  lookup for a material returns the record just made from that material. With an empty
  knowledge base and a batch of one bolt, the bolt is reported as having a previous match:
  it matches its own new record, of id 1, with confidence 0.9 and the reasoning of a match
  from a previous workflow, although the supplier BOM has a row with its part number.
\<close>

theorem batch_matches_own_record:
  "\<exists>kb' r. match_items_with_knowledge_base empty_kb noon [bolt_item] bolt_bom (PyStr ''wf-1'')
        = (kb', Inr [r])
    \<and> map row_id (items_table kb') = [1]
    \<and> map (\<lambda>m. row_id (row m))
         (find_similar_items kb' (PyStr ''M6 Hex Bolt'') (PyStr ''BOLT-M6'')) = [1]
    \<and> dict_get r ''has_previous_match'' PyNone = PyBool True
    \<and> dict_get r ''knowledge_base_matches'' PyNone = PyNum 1
    \<and> dict_get r ''confidence_score'' PyNone = PyNum (fl (9 / 10))
    \<and> dict_get r ''supplier_description'' PyNone = PyStr ''M6 Hex Bolt''
    \<and> dict_get r ''reasoning'' PyNone
        = PyStr ''Exact match found in knowledge base from previous workflow (confidence: 90.0%)''"
proof -
  from add_bolt obtain r where
    ins: "add_items empty_kb noon [bolt_item] (PyStr ''wf-1'') PyNone
        = (empty_kb\<lparr>items_table := [r], sqlite_sequence := 1\<rparr>, [1])"
    and r: "row_id r = 1" "normalized_name r = ''m6 hex bolt''"
      "material_name r = PyStr ''M6 Hex Bolt''"
    by blast
  let ?kb = "empty_kb\<lparr>items_table := [r], sqlite_sequence := 1\<rparr>"
  let ?k = "\<lparr>confidence_score = 1, match_type = ''exact'', row = r\<rparr>"
  have reach: "reachable ?kb"
    by (simp add: empty_kb_fields)
  have "normalize_material_name (PyStr ''M6 Hex Bolt'') = Inr ''m6 hex bolt''"
    by (rule normalize_more_examples)
  from find_similar_items_reachable [OF reach this, of "PyStr ''BOLT-M6''"]
  have found: "find_similar_items ?kb (PyStr ''M6 Hex Bolt'') (PyStr ''BOLT-M6'') = [?k]"
    by (simp add: select_exact_def r)
  have sup: "find_supplier_matches bolt_item bolt_bom = Inr (sorted_reverse confidence_score
      (filter (\<lambda>c. fl (3 / 10) < confidence_score c) (map (spec_candidate bolt_item) bolt_bom)))"
    using bolt_typed by (rule find_supplier_matches_typed)
  have "find_similar_items ?kb (dict_get bolt_item ''qa_material_name'' (PyStr []))
      (dict_get bolt_item ''part_number'' (PyStr [])) = [?k]"
    unfolding bolt_item_lookups by (rule found)
  from match_item_exact [OF this _ sup] obtain res where
    res: "match_item ?kb bolt_bom bolt_item = Inr res"
    "dict_get res ''has_previous_match'' PyNone = PyBool True"
    "dict_get res ''knowledge_base_matches'' PyNone = PyNum (of_nat (length [?k]))"
    "dict_get res ''confidence_score'' PyNone = PyNum (fl (9 / 10))"
    "dict_get res ''supplier_description'' PyNone = material_name (row ?k)"
    "dict_get res ''reasoning'' PyNone
        = PyStr (''Exact match found in knowledge base from previous workflow (confidence: ''
            @ format_percent (fl (9 / 10)) @ '')'')"
    by auto
  have loop: "match_loop ?kb bolt_bom [bolt_item] [] = Inr [res]"
    unfolding match_loop.simps res(1) sum.case append_Nil by (rule refl)
  have out: "match_items_with_knowledge_base empty_kb noon [bolt_item] bolt_bom (PyStr ''wf-1'')
      = (?kb, Inr [res])"
    unfolding match_items_with_knowledge_base_def ins Let_def prod.case loop by (rule refl)
  have rows: "map row_id (items_table ?kb) = [1]"
    by (simp add: r)
  have ids: "map (\<lambda>m. row_id (row m))
      (find_similar_items ?kb (PyStr ''M6 Hex Bolt'') (PyStr ''BOLT-M6'')) = [1]"
    unfolding found by (simp add: r)
  have count: "dict_get res ''knowledge_base_matches'' PyNone = PyNum 1"
    using res(3) by simp
  have desc: "dict_get res ''supplier_description'' PyNone = PyStr ''M6 Hex Bolt''"
    using res(5) by (simp add: r)
  have reason: "dict_get res ''reasoning'' PyNone
      = PyStr ''Exact match found in knowledge base from previous workflow (confidence: 90.0%)''"
    unfolding res(6) ninety_percent by simp
  show ?thesis
    by (intro exI [of _ ?kb] exI [of _ res] conjI)
      (fact out rows ids res(2) count res(4) desc reason)+
qed

end
